theory Spec2Isabelle
  imports Main "HOL-Library.Word" "HOL-Library.Monad_Syntax"
begin

section \<open>Vulkan feature negotiation of IGL: \<open>igl/vulkan/VulkanFeatures.cpp\<close>\<close>

text \<open>
  A shallow embedding of the class \<open>igl::vulkan::VulkanFeatures\<close>: its feature structures,
  the chain of \<open>pNext\<close> pointers that \<open>assembleFeatureChain\<close> builds, the comparison
  \<open>checkSelectedFeatures\<close> of a requested set against an available one, and the guarded
  assignment operator. C++ member names end in an underscore, which is not a name here;
  the members carry the suffix \<open>_m\<close> instead (\<open>version_\<close> is \<open>version_m\<close>).
\<close>

subsection \<open>Vulkan types\<close>

text \<open>\<open>VkBool32\<close> is a 32-bit unsigned integer; \<open>VK_TRUE\<close> is 1 and \<open>VK_FALSE\<close> is 0.\<close>

type_synonym VkBool32 = "32 word"

definition VK_TRUE :: VkBool32 where
  "VK_TRUE = 1"

definition VK_FALSE :: VkBool32 where
  "VK_FALSE = 0"

text \<open>
  The API version is a 32-bit unsigned integer, compared as such;
  \<open>VK_API_VERSION_1_2\<close> is \<open>VK_MAKE_API_VERSION(0, 1, 2, 0)\<close>, that is
  \<open>(1 << 22) | (2 << 12)\<close>.
\<close>

definition VK_API_VERSION_1_1 :: "32 word" where
  "VK_API_VERSION_1_1 = 4198400"

definition VK_API_VERSION_1_2 :: "32 word" where
  "VK_API_VERSION_1_2 = 4202496"

text \<open>The extension names of the Vulkan headers that \<open>assembleFeatureChain\<close> looks up.\<close>

definition VK_EXT_INDEX_TYPE_UINT8_EXTENSION_NAME :: string where
  "VK_EXT_INDEX_TYPE_UINT8_EXTENSION_NAME = ''VK_EXT_index_type_uint8''"

definition VK_KHR_SYNCHRONIZATION_2_EXTENSION_NAME :: string where
  "VK_KHR_SYNCHRONIZATION_2_EXTENSION_NAME = ''VK_KHR_synchronization2''"

definition VK_KHR_TIMELINE_SEMAPHORE_EXTENSION_NAME :: string where
  "VK_KHR_TIMELINE_SEMAPHORE_EXTENSION_NAME = ''VK_KHR_timeline_semaphore''"

datatype VkStructureType =
    VK_STRUCTURE_TYPE_PHYSICAL_DEVICE_FEATURES_2
  | VK_STRUCTURE_TYPE_PHYSICAL_DEVICE_SAMPLER_YCBCR_CONVERSION_FEATURES
  | VK_STRUCTURE_TYPE_PHYSICAL_DEVICE_SHADER_DRAW_PARAMETERS_FEATURES
  | VK_STRUCTURE_TYPE_PHYSICAL_DEVICE_MULTIVIEW_FEATURES
  | VK_STRUCTURE_TYPE_PHYSICAL_DEVICE_BUFFER_DEVICE_ADDRESS_FEATURES_KHR
  | VK_STRUCTURE_TYPE_PHYSICAL_DEVICE_DESCRIPTOR_INDEXING_FEATURES_EXT
  | VK_STRUCTURE_TYPE_PHYSICAL_DEVICE_16BIT_STORAGE_FEATURES
  | VK_STRUCTURE_TYPE_PHYSICAL_DEVICE_SHADER_FLOAT16_INT8_FEATURES_KHR
  | VK_STRUCTURE_TYPE_PHYSICAL_DEVICE_INDEX_TYPE_UINT8_FEATURES_EXT
  | VK_STRUCTURE_TYPE_PHYSICAL_DEVICE_SYNCHRONIZATION_2_FEATURES_KHR
  | VK_STRUCTURE_TYPE_PHYSICAL_DEVICE_TIMELINE_SEMAPHORE_FEATURES_KHR

text \<open>
  The eleven feature structures are members of one \<open>VulkanFeatures\<close> object. A \<open>pNext\<close>
  pointer is null (\<open>None\<close>) or the address of such a member: the address of the object
  that holds it and which member it is. After a member-wise copy from another object a
  pointer can name a member of that other object.
\<close>

datatype BlockKind =
    B_Features2
  | B_SamplerYcbcrConversionFeatures
  | B_ShaderDrawParametersFeatures
  | B_MultiviewFeatures
  | B_BufferDeviceAddressFeaturesKHR
  | B_DescriptorIndexingFeaturesEXT
  | B_16BitStorageFeatures
  | B_ShaderFloat16Int8Features
  | B_IndexTypeUint8Features
  | B_Synchronization2Features
  | B_TimelineSemaphoreFeatures

type_synonym addr = nat

type_synonym VkStructPtr = "(addr \<times> BlockKind) option"

text \<open>Every feature structure starts as \<open>VkBaseInStructure\<close> does.\<close>

record VkBaseInStructure =
  sType :: VkStructureType
  pNext :: VkStructPtr

text \<open>
  \<open>VkPhysicalDeviceFeatures\<close> is declared by the Vulkan headers. The record has the
  members this file reads or writes by name; the structure's other members are only
  zero-initialised (\<open>.features = {}\<close>) and copied with the whole structure.
\<close>

record VkPhysicalDeviceFeatures =
  dualSrcBlend :: VkBool32
  shaderInt16 :: VkBool32
  multiDrawIndirect :: VkBool32
  drawIndirectFirstInstance :: VkBool32
  depthBiasClamp :: VkBool32
  fillModeNonSolid :: VkBool32

record VkPhysicalDeviceFeatures2 = VkBaseInStructure +
  features :: VkPhysicalDeviceFeatures

record VkPhysicalDeviceSamplerYcbcrConversionFeatures = VkBaseInStructure +
  samplerYcbcrConversion :: VkBool32

record VkPhysicalDeviceShaderDrawParametersFeatures = VkBaseInStructure +
  shaderDrawParameters :: VkBool32

record VkPhysicalDeviceMultiviewFeatures = VkBaseInStructure +
  multiview :: VkBool32
  multiviewGeometryShader :: VkBool32
  multiviewTessellationShader :: VkBool32

record VkPhysicalDeviceBufferDeviceAddressFeaturesKHR = VkBaseInStructure +
  bufferDeviceAddress :: VkBool32
  bufferDeviceAddressCaptureReplay :: VkBool32
  bufferDeviceAddressMultiDevice :: VkBool32

record VkPhysicalDeviceDescriptorIndexingFeaturesEXT = VkBaseInStructure +
  shaderInputAttachmentArrayDynamicIndexing :: VkBool32
  shaderUniformTexelBufferArrayDynamicIndexing :: VkBool32
  shaderStorageTexelBufferArrayDynamicIndexing :: VkBool32
  shaderUniformBufferArrayNonUniformIndexing :: VkBool32
  shaderSampledImageArrayNonUniformIndexing :: VkBool32
  shaderStorageBufferArrayNonUniformIndexing :: VkBool32
  shaderStorageImageArrayNonUniformIndexing :: VkBool32
  shaderInputAttachmentArrayNonUniformIndexing :: VkBool32
  shaderUniformTexelBufferArrayNonUniformIndexing :: VkBool32
  shaderStorageTexelBufferArrayNonUniformIndexing :: VkBool32
  descriptorBindingUniformBufferUpdateAfterBind :: VkBool32
  descriptorBindingSampledImageUpdateAfterBind :: VkBool32
  descriptorBindingStorageImageUpdateAfterBind :: VkBool32
  descriptorBindingStorageBufferUpdateAfterBind :: VkBool32
  descriptorBindingUniformTexelBufferUpdateAfterBind :: VkBool32
  descriptorBindingStorageTexelBufferUpdateAfterBind :: VkBool32
  descriptorBindingUpdateUnusedWhilePending :: VkBool32
  descriptorBindingPartiallyBound :: VkBool32
  descriptorBindingVariableDescriptorCount :: VkBool32
  runtimeDescriptorArray :: VkBool32

record VkPhysicalDevice16BitStorageFeatures = VkBaseInStructure +
  storageBuffer16BitAccess :: VkBool32
  uniformAndStorageBuffer16BitAccess :: VkBool32
  storagePushConstant16 :: VkBool32
  storageInputOutput16 :: VkBool32

record VkPhysicalDeviceShaderFloat16Int8Features = VkBaseInStructure +
  shaderFloat16 :: VkBool32
  shaderInt8 :: VkBool32

record VkPhysicalDeviceIndexTypeUint8Features = VkBaseInStructure +
  indexTypeUint8 :: VkBool32

record VkPhysicalDeviceSynchronization2Features = VkBaseInStructure +
  synchronization2 :: VkBool32

record VkPhysicalDeviceTimelineSemaphoreFeatures = VkBaseInStructure +
  timelineSemaphore :: VkBool32

text \<open>\<open>VkExtensionProperties\<close>: the name is a C string, compared with \<open>strcmp\<close>.\<close>

record VkExtensionProperties =
  extensionName :: string
  specVersion :: "32 word"

subsection \<open>The class and its environment\<close>

text \<open>The toggles of \<open>VulkanContextConfig\<close> that this file reads.\<close>

record VulkanContextConfig =
  enableBufferDeviceAddress :: bool
  enableDescriptorIndexing :: bool
  enableDualSrcBlend :: bool
  enableShaderInt16 :: bool
  enableStorageBuffer16BitAccess :: bool
  enableShaderDrawParameters :: bool

record VulkanFeatures =
  VkPhysicalDeviceFeatures2_m :: VkPhysicalDeviceFeatures2
  VkPhysicalDeviceSamplerYcbcrConversionFeatures_m :: VkPhysicalDeviceSamplerYcbcrConversionFeatures
  VkPhysicalDeviceShaderDrawParametersFeatures_m :: VkPhysicalDeviceShaderDrawParametersFeatures
  VkPhysicalDeviceMultiviewFeatures_m :: VkPhysicalDeviceMultiviewFeatures
  VkPhysicalDeviceBufferDeviceAddressFeaturesKHR_m :: VkPhysicalDeviceBufferDeviceAddressFeaturesKHR
  VkPhysicalDeviceDescriptorIndexingFeaturesEXT_m :: VkPhysicalDeviceDescriptorIndexingFeaturesEXT
  VkPhysicalDevice16BitStorageFeatures_m :: VkPhysicalDevice16BitStorageFeatures
  VkPhysicalDeviceShaderFloat16Int8Features_m :: VkPhysicalDeviceShaderFloat16Int8Features
  VkPhysicalDeviceIndexTypeUint8Features_m :: VkPhysicalDeviceIndexTypeUint8Features
  VkPhysicalDeviceSynchronization2Features_m :: VkPhysicalDeviceSynchronization2Features
  VkPhysicalDeviceTimelineSemaphoreFeatures_m :: VkPhysicalDeviceTimelineSemaphoreFeatures
  config_m :: VulkanContextConfig
  version_m :: "32 word"
  extensions_m :: "VkExtensionProperties list"

text \<open>
  The platform macros that the file tests: \<open>IGL_PLATFORM_APPLE\<close> is whether
  \<open>#if !IGL_PLATFORM_APPLE\<close> fails (line 271), \<open>IGL_PLATFORM_ANDROID\<close> whether
  \<open>#ifdef IGL_PLATFORM_ANDROID\<close> holds (line 146).
\<close>

record BuildConfig =
  IGL_PLATFORM_APPLE :: bool
  IGL_PLATFORM_ANDROID :: bool

subsection \<open>The \<open>pNext\<close> pointer of a member\<close>

text \<open>
  \<open>getNext s k\<close> reads \<open>k.pNext\<close> of the object \<open>s\<close> and \<open>setNext k p s\<close> is the object
  after \<open>k.pNext = p\<close>: what a read or write through a \<open>VkBaseInStructure*\<close> that points
  at the member \<open>k\<close> does.
\<close>

fun getNext :: "VulkanFeatures \<Rightarrow> BlockKind \<Rightarrow> VkStructPtr" where
  "getNext s B_Features2 = pNext (VkPhysicalDeviceFeatures2_m s)"
| "getNext s B_SamplerYcbcrConversionFeatures =
     pNext (VkPhysicalDeviceSamplerYcbcrConversionFeatures_m s)"
| "getNext s B_ShaderDrawParametersFeatures =
     pNext (VkPhysicalDeviceShaderDrawParametersFeatures_m s)"
| "getNext s B_MultiviewFeatures = pNext (VkPhysicalDeviceMultiviewFeatures_m s)"
| "getNext s B_BufferDeviceAddressFeaturesKHR =
     pNext (VkPhysicalDeviceBufferDeviceAddressFeaturesKHR_m s)"
| "getNext s B_DescriptorIndexingFeaturesEXT =
     pNext (VkPhysicalDeviceDescriptorIndexingFeaturesEXT_m s)"
| "getNext s B_16BitStorageFeatures = pNext (VkPhysicalDevice16BitStorageFeatures_m s)"
| "getNext s B_ShaderFloat16Int8Features =
     pNext (VkPhysicalDeviceShaderFloat16Int8Features_m s)"
| "getNext s B_IndexTypeUint8Features = pNext (VkPhysicalDeviceIndexTypeUint8Features_m s)"
| "getNext s B_Synchronization2Features = pNext (VkPhysicalDeviceSynchronization2Features_m s)"
| "getNext s B_TimelineSemaphoreFeatures =
     pNext (VkPhysicalDeviceTimelineSemaphoreFeatures_m s)"

fun setNext :: "BlockKind \<Rightarrow> VkStructPtr \<Rightarrow> VulkanFeatures \<Rightarrow> VulkanFeatures" where
  "setNext B_Features2 p s =
     s\<lparr>VkPhysicalDeviceFeatures2_m :=
         (VkPhysicalDeviceFeatures2_m s)\<lparr>pNext := p\<rparr>\<rparr>"
| "setNext B_SamplerYcbcrConversionFeatures p s =
     s\<lparr>VkPhysicalDeviceSamplerYcbcrConversionFeatures_m :=
         (VkPhysicalDeviceSamplerYcbcrConversionFeatures_m s)\<lparr>pNext := p\<rparr>\<rparr>"
| "setNext B_ShaderDrawParametersFeatures p s =
     s\<lparr>VkPhysicalDeviceShaderDrawParametersFeatures_m :=
         (VkPhysicalDeviceShaderDrawParametersFeatures_m s)\<lparr>pNext := p\<rparr>\<rparr>"
| "setNext B_MultiviewFeatures p s =
     s\<lparr>VkPhysicalDeviceMultiviewFeatures_m :=
         (VkPhysicalDeviceMultiviewFeatures_m s)\<lparr>pNext := p\<rparr>\<rparr>"
| "setNext B_BufferDeviceAddressFeaturesKHR p s =
     s\<lparr>VkPhysicalDeviceBufferDeviceAddressFeaturesKHR_m :=
         (VkPhysicalDeviceBufferDeviceAddressFeaturesKHR_m s)\<lparr>pNext := p\<rparr>\<rparr>"
| "setNext B_DescriptorIndexingFeaturesEXT p s =
     s\<lparr>VkPhysicalDeviceDescriptorIndexingFeaturesEXT_m :=
         (VkPhysicalDeviceDescriptorIndexingFeaturesEXT_m s)\<lparr>pNext := p\<rparr>\<rparr>"
| "setNext B_16BitStorageFeatures p s =
     s\<lparr>VkPhysicalDevice16BitStorageFeatures_m :=
         (VkPhysicalDevice16BitStorageFeatures_m s)\<lparr>pNext := p\<rparr>\<rparr>"
| "setNext B_ShaderFloat16Int8Features p s =
     s\<lparr>VkPhysicalDeviceShaderFloat16Int8Features_m :=
         (VkPhysicalDeviceShaderFloat16Int8Features_m s)\<lparr>pNext := p\<rparr>\<rparr>"
| "setNext B_IndexTypeUint8Features p s =
     s\<lparr>VkPhysicalDeviceIndexTypeUint8Features_m :=
         (VkPhysicalDeviceIndexTypeUint8Features_m s)\<lparr>pNext := p\<rparr>\<rparr>"
| "setNext B_Synchronization2Features p s =
     s\<lparr>VkPhysicalDeviceSynchronization2Features_m :=
         (VkPhysicalDeviceSynchronization2Features_m s)\<lparr>pNext := p\<rparr>\<rparr>"
| "setNext B_TimelineSemaphoreFeatures p s =
     s\<lparr>VkPhysicalDeviceTimelineSemaphoreFeatures_m :=
         (VkPhysicalDeviceTimelineSemaphoreFeatures_m s)\<lparr>pNext := p\<rparr>\<rparr>"

text \<open>
  Modelled from the spec: \<open>ivkAddNext\<close>, a helper of the repository whose code is not
  among the sources. The spec has a chain as an ordered singly-linked traversal from one
  root, in insertion order, whose terminal link is null: \<open>ivkAddNext(node, next)\<close> walks
  from \<open>node\<close> along \<open>pNext\<close> to the structure whose link is null and stores the address
  of \<open>next\<close> there. The walk stays within the members of the object at \<open>this\<close>; it does
  not return (\<open>None\<close>) on a cycle, and no result is given either when a link leaves
  the object.
\<close>

partial_function (option) ivkAddNext_last ::
  "addr \<Rightarrow> VulkanFeatures \<Rightarrow> BlockKind \<Rightarrow> BlockKind option" where
  "ivkAddNext_last this s cur =
     (case getNext s cur of
        None \<Rightarrow> Some cur
      | Some p \<Rightarrow> if fst p = this then ivkAddNext_last this s (snd p) else None)"

definition ivkAddNext ::
  "addr \<Rightarrow> BlockKind \<Rightarrow> BlockKind \<Rightarrow> VulkanFeatures \<Rightarrow> VulkanFeatures option" where
  "ivkAddNext this node next s =
     (case ivkAddNext_last this s node of
        None \<Rightarrow> None
      | Some cur \<Rightarrow> Some (setNext cur (Some (this, next)) s))"

text \<open>
  The chain as a reader of it sees it (the driver, in \<open>vkGetPhysicalDeviceFeatures2\<close>):
  the members met from the pointer \<open>p\<close> on, in order, up to the null link.
\<close>

partial_function (option) pNextChain ::
  "addr \<Rightarrow> VulkanFeatures \<Rightarrow> VkStructPtr \<Rightarrow> BlockKind list option" where
  "pNextChain this s p =
     (case p of
        None \<Rightarrow> Some []
      | Some q \<Rightarrow>
          if fst q = this
          then Option.bind (pNextChain this s (getNext s (snd q))) (\<lambda>ks. Some (snd q # ks))
          else None)"

subsection \<open>\<open>hasExtension\<close>\<close>

text \<open>The loop over \<open>extensions_\<close>; \<open>strcmp(ext, props.extensionName) == 0\<close> is equality of
  the two C strings.\<close>

fun hasExtension_loop :: "string \<Rightarrow> VkExtensionProperties list \<Rightarrow> bool" where
  "hasExtension_loop ext [] = False"
| "hasExtension_loop ext (props # rest) =
     (if ext = extensionName props then True else hasExtension_loop ext rest)"

definition hasExtension :: "VulkanFeatures \<Rightarrow> string \<Rightarrow> bool" where
  "hasExtension s ext = hasExtension_loop ext (extensions_m s)"

subsection \<open>\<open>assembleFeatureChain\<close>\<close>

text \<open>Lines 291 to 298: the first eight resets.\<close>

definition assembleFeatureChain_reset :: "VulkanFeatures \<Rightarrow> VulkanFeatures" where
  "assembleFeatureChain_reset s0 =
     (let s = setNext B_Features2 None s0;
          s = setNext B_SamplerYcbcrConversionFeatures None s;
          s = setNext B_ShaderDrawParametersFeatures None s;
          s = setNext B_MultiviewFeatures None s;
          s = setNext B_IndexTypeUint8Features None s;
          s = setNext B_Synchronization2Features None s;
          s = setNext B_TimelineSemaphoreFeatures None s;
          s = setNext B_ShaderFloat16Int8Features None s
      in s)"

text \<open>Lines 301 to 306: the three unconditional links and the version-gated one.\<close>

definition assembleFeatureChain_required ::
  "addr \<Rightarrow> VulkanFeatures \<Rightarrow> VulkanFeatures option" where
  "assembleFeatureChain_required this s0 = do {
     s \<leftarrow> ivkAddNext this B_Features2 B_SamplerYcbcrConversionFeatures s0;
     s \<leftarrow> ivkAddNext this B_Features2 B_ShaderDrawParametersFeatures s;
     s \<leftarrow> ivkAddNext this B_Features2 B_MultiviewFeatures s;
     if version_m s \<ge> VK_API_VERSION_1_2
     then ivkAddNext this B_Features2 B_ShaderFloat16Int8Features s
     else Some s
   }"

text \<open>Lines 307 to 316: the two configuration-gated structures and 16-bit storage, each
  reset just before its link.\<close>

definition assembleFeatureChain_configured ::
  "addr \<Rightarrow> VulkanContextConfig \<Rightarrow> VulkanFeatures \<Rightarrow> VulkanFeatures option" where
  "assembleFeatureChain_configured this config s0 = do {
     let s = setNext B_BufferDeviceAddressFeaturesKHR None s0;
     s \<leftarrow> (if enableBufferDeviceAddress config
           then ivkAddNext this B_Features2 B_BufferDeviceAddressFeaturesKHR s
           else Some s);
     let s = setNext B_DescriptorIndexingFeaturesEXT None s;
     s \<leftarrow> (if enableDescriptorIndexing config
           then ivkAddNext this B_Features2 B_DescriptorIndexingFeaturesEXT s
           else Some s);
     let s = setNext B_16BitStorageFeatures None s;
     ivkAddNext this B_Features2 B_16BitStorageFeatures s
   }"

text \<open>Lines 318 to 326: the three extension-gated structures.\<close>

definition assembleFeatureChain_extensions ::
  "addr \<Rightarrow> VulkanFeatures \<Rightarrow> VulkanFeatures option" where
  "assembleFeatureChain_extensions this s0 = do {
     s \<leftarrow> (if hasExtension s0 VK_EXT_INDEX_TYPE_UINT8_EXTENSION_NAME
           then ivkAddNext this B_Features2 B_IndexTypeUint8Features s0
           else Some s0);
     s \<leftarrow> (if hasExtension s VK_KHR_SYNCHRONIZATION_2_EXTENSION_NAME
           then ivkAddNext this B_Features2 B_Synchronization2Features s
           else Some s);
     if hasExtension s VK_KHR_TIMELINE_SEMAPHORE_EXTENSION_NAME
     then ivkAddNext this B_Features2 B_TimelineSemaphoreFeatures s
     else Some s
   }"

text \<open>The member function, on the object at address \<open>this\<close>: the four parts in the order
  of the source.\<close>

definition assembleFeatureChain ::
  "addr \<Rightarrow> VulkanContextConfig \<Rightarrow> VulkanFeatures \<Rightarrow> VulkanFeatures option" where
  "assembleFeatureChain this config s0 = do {
     s \<leftarrow> assembleFeatureChain_required this (assembleFeatureChain_reset s0);
     s \<leftarrow> assembleFeatureChain_configured this config s;
     assembleFeatureChain_extensions this s
   }"

subsection \<open>The constructor\<close>

text \<open>Lines 15 to 109: the member initialisers. \<open>.features = {}\<close> sets every member of
  \<open>VkPhysicalDeviceFeatures\<close> to zero; \<open>extensions_\<close> starts empty. The initialisers under
  \<open>#if\<close> are those of members that \<open>assembleFeatureChain\<close> and the assignment name
  unguarded, so they are part of every build of this file.\<close>

definition VulkanFeatures_members :: "32 word \<Rightarrow> VulkanContextConfig \<Rightarrow> VulkanFeatures" where
  "VulkanFeatures_members version config =
     \<lparr>VkPhysicalDeviceFeatures2_m =
        \<lparr>sType = VK_STRUCTURE_TYPE_PHYSICAL_DEVICE_FEATURES_2, pNext = None,
          features = \<lparr>dualSrcBlend = 0, shaderInt16 = 0, multiDrawIndirect = 0,
            drawIndirectFirstInstance = 0, depthBiasClamp = 0, fillModeNonSolid = 0\<rparr>\<rparr>,
      VkPhysicalDeviceSamplerYcbcrConversionFeatures_m =
        \<lparr>sType = VK_STRUCTURE_TYPE_PHYSICAL_DEVICE_SAMPLER_YCBCR_CONVERSION_FEATURES,
          pNext = None, samplerYcbcrConversion = VK_FALSE\<rparr>,
      VkPhysicalDeviceShaderDrawParametersFeatures_m =
        \<lparr>sType = VK_STRUCTURE_TYPE_PHYSICAL_DEVICE_SHADER_DRAW_PARAMETERS_FEATURES,
          pNext = None, shaderDrawParameters = VK_FALSE\<rparr>,
      VkPhysicalDeviceMultiviewFeatures_m =
        \<lparr>sType = VK_STRUCTURE_TYPE_PHYSICAL_DEVICE_MULTIVIEW_FEATURES, pNext = None,
          multiview = VK_FALSE, multiviewGeometryShader = VK_FALSE,
          multiviewTessellationShader = VK_FALSE\<rparr>,
      VkPhysicalDeviceBufferDeviceAddressFeaturesKHR_m =
        \<lparr>sType = VK_STRUCTURE_TYPE_PHYSICAL_DEVICE_BUFFER_DEVICE_ADDRESS_FEATURES_KHR,
          pNext = None, bufferDeviceAddress = VK_FALSE,
          bufferDeviceAddressCaptureReplay = VK_FALSE,
          bufferDeviceAddressMultiDevice = VK_FALSE\<rparr>,
      VkPhysicalDeviceDescriptorIndexingFeaturesEXT_m =
        \<lparr>sType = VK_STRUCTURE_TYPE_PHYSICAL_DEVICE_DESCRIPTOR_INDEXING_FEATURES_EXT,
          pNext = None,
          shaderInputAttachmentArrayDynamicIndexing = VK_FALSE,
          shaderUniformTexelBufferArrayDynamicIndexing = VK_FALSE,
          shaderStorageTexelBufferArrayDynamicIndexing = VK_FALSE,
          shaderUniformBufferArrayNonUniformIndexing = VK_FALSE,
          shaderSampledImageArrayNonUniformIndexing = VK_FALSE,
          shaderStorageBufferArrayNonUniformIndexing = VK_FALSE,
          shaderStorageImageArrayNonUniformIndexing = VK_FALSE,
          shaderInputAttachmentArrayNonUniformIndexing = VK_FALSE,
          shaderUniformTexelBufferArrayNonUniformIndexing = VK_FALSE,
          shaderStorageTexelBufferArrayNonUniformIndexing = VK_FALSE,
          descriptorBindingUniformBufferUpdateAfterBind = VK_FALSE,
          descriptorBindingSampledImageUpdateAfterBind = VK_FALSE,
          descriptorBindingStorageImageUpdateAfterBind = VK_FALSE,
          descriptorBindingStorageBufferUpdateAfterBind = VK_FALSE,
          descriptorBindingUniformTexelBufferUpdateAfterBind = VK_FALSE,
          descriptorBindingStorageTexelBufferUpdateAfterBind = VK_FALSE,
          descriptorBindingUpdateUnusedWhilePending = VK_FALSE,
          descriptorBindingPartiallyBound = VK_FALSE,
          descriptorBindingVariableDescriptorCount = VK_FALSE,
          runtimeDescriptorArray = VK_FALSE\<rparr>,
      VkPhysicalDevice16BitStorageFeatures_m =
        \<lparr>sType = VK_STRUCTURE_TYPE_PHYSICAL_DEVICE_16BIT_STORAGE_FEATURES, pNext = None,
          storageBuffer16BitAccess = VK_FALSE, uniformAndStorageBuffer16BitAccess = VK_FALSE,
          storagePushConstant16 = VK_FALSE, storageInputOutput16 = VK_FALSE\<rparr>,
      VkPhysicalDeviceShaderFloat16Int8Features_m =
        \<lparr>sType = VK_STRUCTURE_TYPE_PHYSICAL_DEVICE_SHADER_FLOAT16_INT8_FEATURES_KHR,
          pNext = None, shaderFloat16 = VK_FALSE, shaderInt8 = VK_FALSE\<rparr>,
      VkPhysicalDeviceIndexTypeUint8Features_m =
        \<lparr>sType = VK_STRUCTURE_TYPE_PHYSICAL_DEVICE_INDEX_TYPE_UINT8_FEATURES_EXT,
          pNext = None, indexTypeUint8 = VK_FALSE\<rparr>,
      VkPhysicalDeviceSynchronization2Features_m =
        \<lparr>sType = VK_STRUCTURE_TYPE_PHYSICAL_DEVICE_SYNCHRONIZATION_2_FEATURES_KHR,
          pNext = None, synchronization2 = VK_TRUE\<rparr>,
      VkPhysicalDeviceTimelineSemaphoreFeatures_m =
        \<lparr>sType = VK_STRUCTURE_TYPE_PHYSICAL_DEVICE_TIMELINE_SEMAPHORE_FEATURES_KHR,
          pNext = None, timelineSemaphore = VK_TRUE\<rparr>,
      config_m = config,
      version_m = version,
      extensions_m = []\<rparr>"

text \<open>The constructor of the object at address \<open>this\<close>: the initialisers, then
  \<open>assembleFeatureChain(config_)\<close>.\<close>

definition VulkanFeatures_ctor ::
  "addr \<Rightarrow> 32 word \<Rightarrow> VulkanContextConfig \<Rightarrow> VulkanFeatures option" where
  "VulkanFeatures_ctor this version config =
     (let s = VulkanFeatures_members version config
      in assembleFeatureChain this (config_m s) s)"

subsection \<open>\<open>enableDefaultFeatures1_1\<close>\<close>

definition enableDefaultFeatures1_1 :: "BuildConfig \<Rightarrow> VulkanFeatures \<Rightarrow> VulkanFeatures" where
  "enableDefaultFeatures1_1 b s0 =
     (let s = s0\<lparr>VkPhysicalDeviceFeatures2_m := (VkPhysicalDeviceFeatures2_m s0)
                \<lparr>features := (features (VkPhysicalDeviceFeatures2_m s0))
                  \<lparr>dualSrcBlend := (if enableDualSrcBlend (config_m s0) then VK_TRUE else VK_FALSE),
                    shaderInt16 := (if enableShaderInt16 (config_m s0) then VK_TRUE else VK_FALSE),
                    multiDrawIndirect := VK_TRUE,
                    drawIndirectFirstInstance := VK_TRUE,
                    depthBiasClamp := VK_TRUE,
                    fillModeNonSolid := (if IGL_PLATFORM_ANDROID b then VK_FALSE else VK_TRUE)\<rparr>\<rparr>\<rparr>;
          s = (if enableDescriptorIndexing (config_m s)
               then s\<lparr>VkPhysicalDeviceDescriptorIndexingFeaturesEXT_m :=
                  (VkPhysicalDeviceDescriptorIndexingFeaturesEXT_m s)
                \<lparr>shaderSampledImageArrayNonUniformIndexing := VK_TRUE,
                  descriptorBindingUniformBufferUpdateAfterBind := VK_TRUE,
                  descriptorBindingSampledImageUpdateAfterBind := VK_TRUE,
                  descriptorBindingStorageImageUpdateAfterBind := VK_TRUE,
                  descriptorBindingStorageBufferUpdateAfterBind := VK_TRUE,
                  descriptorBindingUpdateUnusedWhilePending := VK_TRUE,
                  descriptorBindingPartiallyBound := VK_TRUE,
                  runtimeDescriptorArray := VK_TRUE\<rparr>\<rparr>
               else s);
          s = s\<lparr>VkPhysicalDevice16BitStorageFeatures_m := (VkPhysicalDevice16BitStorageFeatures_m s)
                \<lparr>storageBuffer16BitAccess :=
                   (if enableStorageBuffer16BitAccess (config_m s) then VK_TRUE else VK_FALSE)\<rparr>\<rparr>;
          s = (if enableBufferDeviceAddress (config_m s)
               then s\<lparr>VkPhysicalDeviceBufferDeviceAddressFeaturesKHR_m :=
                  (VkPhysicalDeviceBufferDeviceAddressFeaturesKHR_m s)
                    \<lparr>bufferDeviceAddress := VK_TRUE\<rparr>\<rparr>
               else s);
          s = s\<lparr>VkPhysicalDeviceMultiviewFeatures_m := (VkPhysicalDeviceMultiviewFeatures_m s)
                \<lparr>multiview := VK_TRUE\<rparr>\<rparr>;
          s = s\<lparr>VkPhysicalDeviceSamplerYcbcrConversionFeatures_m :=
                (VkPhysicalDeviceSamplerYcbcrConversionFeatures_m s)
                \<lparr>samplerYcbcrConversion := VK_TRUE\<rparr>\<rparr>;
          s = s\<lparr>VkPhysicalDeviceShaderDrawParametersFeatures_m :=
                (VkPhysicalDeviceShaderDrawParametersFeatures_m s)
                \<lparr>shaderDrawParameters :=
                   (if enableShaderDrawParameters (config_m s) then VK_TRUE else VK_FALSE)\<rparr>\<rparr>;
          s = s\<lparr>VkPhysicalDeviceSynchronization2Features_m :=
                (VkPhysicalDeviceSynchronization2Features_m s)\<lparr>synchronization2 := VK_TRUE\<rparr>\<rparr>;
          s = s\<lparr>VkPhysicalDeviceTimelineSemaphoreFeatures_m :=
                (VkPhysicalDeviceTimelineSemaphoreFeatures_m s)\<lparr>timelineSemaphore := VK_TRUE\<rparr>\<rparr>
      in s)"

subsection \<open>\<open>checkSelectedFeatures\<close>\<close>

text \<open>\<open>igl::Result\<close>: a code and a message; \<open>Result{}\<close> is \<open>Ok\<close> with an empty message, as
  is the message of \<open>Result(Result::Code::RuntimeError)\<close>.\<close>

datatype ResultCode = Ok | InvalidOperation | RuntimeError

record Result =
  code :: ResultCode
  message :: string

text \<open>
  The macro of lines 191 to 195, on the values of the two members: the text appended is
  \<open>"\n   " version " " #requestedFeatureStruct "." #feature\<close>, where the two stringified
  arguments are passed as strings.
\<close>

definition ENABLE_VULKAN_FEATURE ::
  "VkBool32 \<Rightarrow> VkBool32 \<Rightarrow> string \<Rightarrow> string \<Rightarrow> string \<Rightarrow> string \<Rightarrow> string" where
  "ENABLE_VULKAN_FEATURE requested available requestedFeatureStruct feature version
       missingFeatures =
     (if requested = VK_TRUE \<and> available = VK_FALSE
      then missingFeatures @
             ''\<newline>   '' @ version @ '' '' @ requestedFeatureStruct @ ''.'' @ feature
      else missingFeatures)"

definition ENABLE_FEATURE_1_1 ::
  "VulkanFeatures \<Rightarrow> VulkanFeatures \<Rightarrow> (VkPhysicalDeviceFeatures \<Rightarrow> VkBool32) \<Rightarrow> string \<Rightarrow>
   string \<Rightarrow> string" where
  "ENABLE_FEATURE_1_1 this availableFeatureStruct field feature =
     ENABLE_VULKAN_FEATURE
       (field (features (VkPhysicalDeviceFeatures2_m this)))
       (field (features (VkPhysicalDeviceFeatures2_m availableFeatureStruct)))
       ''VkPhysicalDeviceFeatures2_.features'' feature ''1.1''"

definition ENABLE_FEATURE_1_1_EXT ::
  "VkBool32 \<Rightarrow> VkBool32 \<Rightarrow> string \<Rightarrow> string \<Rightarrow> string \<Rightarrow> string" where
  "ENABLE_FEATURE_1_1_EXT requested available requestedFeatureStruct feature =
     ENABLE_VULKAN_FEATURE requested available requestedFeatureStruct feature ''1.1 EXT''"

definition ENABLE_FEATURE_1_2_EXT ::
  "VkBool32 \<Rightarrow> VkBool32 \<Rightarrow> string \<Rightarrow> string \<Rightarrow> string \<Rightarrow> string" where
  "ENABLE_FEATURE_1_2_EXT requested available requestedFeatureStruct feature =
     ENABLE_VULKAN_FEATURE requested available requestedFeatureStruct feature ''1.2''"

text \<open>Lines 186 to 268: the local string \<open>missingFeatures\<close> after the checks. The members
  tested by \<open>#if\<close> exist in every build of this file (\<open>assembleFeatureChain\<close> and the
  assignment name them unguarded), so the guarded checks are part of it.\<close>

definition checkSelectedFeatures_missingFeatures ::
  "VulkanFeatures \<Rightarrow> VulkanFeatures \<Rightarrow> string" where
  "checkSelectedFeatures_missingFeatures this availableFeatures =
     (let m = [];
          m = ENABLE_FEATURE_1_1 this availableFeatures dualSrcBlend ''dualSrcBlend'' m;
          m = ENABLE_FEATURE_1_1 this availableFeatures shaderInt16 ''shaderInt16'' m;
          m = ENABLE_FEATURE_1_1 this availableFeatures multiDrawIndirect ''multiDrawIndirect'' m;
          m = ENABLE_FEATURE_1_1 this availableFeatures drawIndirectFirstInstance
                ''drawIndirectFirstInstance'' m;
          m = ENABLE_FEATURE_1_1 this availableFeatures depthBiasClamp ''depthBiasClamp'' m;
          m = ENABLE_FEATURE_1_1 this availableFeatures fillModeNonSolid ''fillModeNonSolid'' m;
          m = (if enableDescriptorIndexing (config_m this) then
                 (let
                    m = ENABLE_FEATURE_1_1_EXT
                          (shaderSampledImageArrayNonUniformIndexing
                             (VkPhysicalDeviceDescriptorIndexingFeaturesEXT_m this))
                          (shaderSampledImageArrayNonUniformIndexing
                             (VkPhysicalDeviceDescriptorIndexingFeaturesEXT_m availableFeatures))
                          ''VkPhysicalDeviceDescriptorIndexingFeaturesEXT_''
                          ''shaderSampledImageArrayNonUniformIndexing'' m;
                    m = ENABLE_FEATURE_1_1_EXT
                          (descriptorBindingUniformBufferUpdateAfterBind
                             (VkPhysicalDeviceDescriptorIndexingFeaturesEXT_m this))
                          (descriptorBindingUniformBufferUpdateAfterBind
                             (VkPhysicalDeviceDescriptorIndexingFeaturesEXT_m availableFeatures))
                          ''VkPhysicalDeviceDescriptorIndexingFeaturesEXT_''
                          ''descriptorBindingUniformBufferUpdateAfterBind'' m;
                    m = ENABLE_FEATURE_1_1_EXT
                          (descriptorBindingSampledImageUpdateAfterBind
                             (VkPhysicalDeviceDescriptorIndexingFeaturesEXT_m this))
                          (descriptorBindingSampledImageUpdateAfterBind
                             (VkPhysicalDeviceDescriptorIndexingFeaturesEXT_m availableFeatures))
                          ''VkPhysicalDeviceDescriptorIndexingFeaturesEXT_''
                          ''descriptorBindingSampledImageUpdateAfterBind'' m;
                    m = ENABLE_FEATURE_1_1_EXT
                          (descriptorBindingStorageImageUpdateAfterBind
                             (VkPhysicalDeviceDescriptorIndexingFeaturesEXT_m this))
                          (descriptorBindingStorageImageUpdateAfterBind
                             (VkPhysicalDeviceDescriptorIndexingFeaturesEXT_m availableFeatures))
                          ''VkPhysicalDeviceDescriptorIndexingFeaturesEXT_''
                          ''descriptorBindingStorageImageUpdateAfterBind'' m;
                    m = ENABLE_FEATURE_1_1_EXT
                          (descriptorBindingStorageBufferUpdateAfterBind
                             (VkPhysicalDeviceDescriptorIndexingFeaturesEXT_m this))
                          (descriptorBindingStorageBufferUpdateAfterBind
                             (VkPhysicalDeviceDescriptorIndexingFeaturesEXT_m availableFeatures))
                          ''VkPhysicalDeviceDescriptorIndexingFeaturesEXT_''
                          ''descriptorBindingStorageBufferUpdateAfterBind'' m;
                    m = ENABLE_FEATURE_1_1_EXT
                          (descriptorBindingUpdateUnusedWhilePending
                             (VkPhysicalDeviceDescriptorIndexingFeaturesEXT_m this))
                          (descriptorBindingUpdateUnusedWhilePending
                             (VkPhysicalDeviceDescriptorIndexingFeaturesEXT_m availableFeatures))
                          ''VkPhysicalDeviceDescriptorIndexingFeaturesEXT_''
                          ''descriptorBindingUpdateUnusedWhilePending'' m;
                    m = ENABLE_FEATURE_1_1_EXT
                          (descriptorBindingPartiallyBound
                             (VkPhysicalDeviceDescriptorIndexingFeaturesEXT_m this))
                          (descriptorBindingPartiallyBound
                             (VkPhysicalDeviceDescriptorIndexingFeaturesEXT_m availableFeatures))
                          ''VkPhysicalDeviceDescriptorIndexingFeaturesEXT_''
                          ''descriptorBindingPartiallyBound'' m;
                    m = ENABLE_FEATURE_1_1_EXT
                          (runtimeDescriptorArray
                             (VkPhysicalDeviceDescriptorIndexingFeaturesEXT_m this))
                          (runtimeDescriptorArray
                             (VkPhysicalDeviceDescriptorIndexingFeaturesEXT_m availableFeatures))
                          ''VkPhysicalDeviceDescriptorIndexingFeaturesEXT_''
                          ''runtimeDescriptorArray'' m
                  in m)
               else m);
          m = ENABLE_FEATURE_1_1_EXT
                (storageBuffer16BitAccess (VkPhysicalDevice16BitStorageFeatures_m this))
                (storageBuffer16BitAccess (VkPhysicalDevice16BitStorageFeatures_m availableFeatures))
                ''VkPhysicalDevice16BitStorageFeatures_'' ''storageBuffer16BitAccess'' m;
          m = (if enableBufferDeviceAddress (config_m this) then
                 ENABLE_FEATURE_1_1_EXT
                   (bufferDeviceAddress (VkPhysicalDeviceBufferDeviceAddressFeaturesKHR_m this))
                   (bufferDeviceAddress
                      (VkPhysicalDeviceBufferDeviceAddressFeaturesKHR_m availableFeatures))
                   ''VkPhysicalDeviceBufferDeviceAddressFeaturesKHR_'' ''bufferDeviceAddress'' m
               else m);
          m = ENABLE_FEATURE_1_1_EXT
                (multiview (VkPhysicalDeviceMultiviewFeatures_m this))
                (multiview (VkPhysicalDeviceMultiviewFeatures_m availableFeatures))
                ''VkPhysicalDeviceMultiviewFeatures_'' ''multiview'' m;
          m = ENABLE_FEATURE_1_1_EXT
                (samplerYcbcrConversion (VkPhysicalDeviceSamplerYcbcrConversionFeatures_m this))
                (samplerYcbcrConversion
                   (VkPhysicalDeviceSamplerYcbcrConversionFeatures_m availableFeatures))
                ''VkPhysicalDeviceSamplerYcbcrConversionFeatures_'' ''samplerYcbcrConversion'' m;
          m = ENABLE_FEATURE_1_1_EXT
                (shaderDrawParameters (VkPhysicalDeviceShaderDrawParametersFeatures_m this))
                (shaderDrawParameters
                   (VkPhysicalDeviceShaderDrawParametersFeatures_m availableFeatures))
                ''VkPhysicalDeviceShaderDrawParametersFeatures_'' ''shaderDrawParameters'' m;
          m = ENABLE_FEATURE_1_2_EXT
                (shaderFloat16 (VkPhysicalDeviceShaderFloat16Int8Features_m this))
                (shaderFloat16 (VkPhysicalDeviceShaderFloat16Int8Features_m availableFeatures))
                ''VkPhysicalDeviceShaderFloat16Int8Features_'' ''shaderFloat16'' m
      in m)"

text \<open>
  Modelled from the spec: what a failed \<open>IGL_DEBUG_ASSERT\<close> does; the macro is defined
  outside the sources. The spec has a violated precondition of the negotiation as a
  precondition failure (abort/assert), not a reportable negotiation outcome, that never
  silently continues: a failed assertion ends the call, and the call has no result.
\<close>

datatype PreconditionFailure = AssertionFailed string

definition IGL_DEBUG_ASSERT :: "bool \<Rightarrow> string \<Rightarrow> PreconditionFailure + unit" where
  "IGL_DEBUG_ASSERT cond msg = (if cond then Inr () else Inl (AssertionFailed msg))"

text \<open>
  The diagnostics the call raises besides its return value, each with its formatted
  message: the abort request of \<open>IGL_DEBUG_ABORT\<close> and the log line of \<open>IGL_LOG_INFO\<close>.
  Both macros are defined outside the sources; the function is \<open>noexcept\<close> and the
  statement after \<open>IGL_DEBUG_ABORT\<close> returns \<open>RuntimeError\<close>, so the outcome of a call
  holds the diagnostics raised and the \<open>Result\<close> returned.
\<close>

datatype Diagnostic = DebugAbort string | LogInfo string

record Outcome =
  diagnostics :: "Diagnostic list"
  returned :: Result

definition checkSelectedFeatures ::
  "BuildConfig \<Rightarrow> VulkanFeatures \<Rightarrow> VulkanFeatures \<Rightarrow> PreconditionFailure + Outcome" where
  "checkSelectedFeatures b this availableFeatures =
     (case IGL_DEBUG_ASSERT (version_m availableFeatures = version_m this)
             (''The API versions don't match between the requested features and the ones that '' @
              ''are available'')
      of
        Inl failure \<Rightarrow> Inl failure
      | Inr _ \<Rightarrow>
          (let missingFeatures = checkSelectedFeatures_missingFeatures this availableFeatures
           in if missingFeatures \<noteq> [] then
                (if \<not> IGL_PLATFORM_APPLE b
                 then Inr \<lparr>diagnostics =
                             [DebugAbort
                                (''Missing Vulkan features: '' @ missingFeatures @ ''\<newline>'')],
                           returned = \<lparr>code = RuntimeError, message = []\<rparr>\<rparr>
                 else Inr \<lparr>diagnostics =
                             [LogInfo
                                (''Missing Vulkan features: '' @ missingFeatures @ ''\<newline>'')],
                           returned = \<lparr>code = Ok, message = []\<rparr>\<rparr>)
              else Inr \<lparr>diagnostics = [], returned = \<lparr>code = Ok, message = []\<rparr>\<rparr>))"

subsection \<open>The assignment operator\<close>

text \<open>Lines 342 to 361: the member-wise copy of the eleven structures (their \<open>pNext\<close>
  included) and of \<open>extensions_\<close>; \<open>config_\<close> and \<open>version_\<close> are not assigned.\<close>

definition operator_assign_copy :: "VulkanFeatures \<Rightarrow> VulkanFeatures \<Rightarrow> VulkanFeatures" where
  "operator_assign_copy other s =
     s\<lparr>VkPhysicalDeviceFeatures2_m := VkPhysicalDeviceFeatures2_m other,
       VkPhysicalDeviceSamplerYcbcrConversionFeatures_m :=
         VkPhysicalDeviceSamplerYcbcrConversionFeatures_m other,
       VkPhysicalDeviceShaderDrawParametersFeatures_m :=
         VkPhysicalDeviceShaderDrawParametersFeatures_m other,
       VkPhysicalDeviceMultiviewFeatures_m := VkPhysicalDeviceMultiviewFeatures_m other,
       VkPhysicalDeviceBufferDeviceAddressFeaturesKHR_m :=
         VkPhysicalDeviceBufferDeviceAddressFeaturesKHR_m other,
       VkPhysicalDeviceDescriptorIndexingFeaturesEXT_m :=
         VkPhysicalDeviceDescriptorIndexingFeaturesEXT_m other,
       VkPhysicalDevice16BitStorageFeatures_m := VkPhysicalDevice16BitStorageFeatures_m other,
       VkPhysicalDeviceShaderFloat16Int8Features_m :=
         VkPhysicalDeviceShaderFloat16Int8Features_m other,
       VkPhysicalDeviceIndexTypeUint8Features_m := VkPhysicalDeviceIndexTypeUint8Features_m other,
       VkPhysicalDeviceSynchronization2Features_m :=
         VkPhysicalDeviceSynchronization2Features_m other,
       VkPhysicalDeviceTimelineSemaphoreFeatures_m :=
         VkPhysicalDeviceTimelineSemaphoreFeatures_m other,
       extensions_m := extensions_m other\<rparr>"

text \<open>
  The objects live in a store, a map from addresses to objects; \<open>*this = other\<close> takes the
  two addresses and gives the store after the call (the reference returned is \<open>this\<close>).
  A call on an address that holds no object has no result (\<open>None\<close>).
\<close>

type_synonym store = "addr \<Rightarrow> VulkanFeatures option"

definition operator_assign :: "store \<Rightarrow> addr \<Rightarrow> addr \<Rightarrow> store option" where
  "operator_assign h this other =
     (case (h this, h other) of
        (Some s, Some t) \<Rightarrow>
          if this = other then Some h
          else
            (let sameVersion = (version_m s = version_m t);
                 sameConfiguration =
                   (enableBufferDeviceAddress (config_m s) = enableBufferDeviceAddress (config_m t) \<and>
                    enableDescriptorIndexing (config_m s) = enableDescriptorIndexing (config_m t))
             in if \<not> sameVersion \<or> \<not> sameConfiguration then Some h
                else
                  (case assembleFeatureChain this (config_m s) (operator_assign_copy t s) of
                     None \<Rightarrow> None
                   | Some s' \<Rightarrow> Some (h(this \<mapsto> s'))))
      | _ \<Rightarrow> None)"

subsection \<open>Vocabulary of the statements: chains\<close>

text \<open>
  \<open>isChain this s ks\<close>: in the object \<open>s\<close> at address \<open>this\<close> the structures \<open>ks\<close> are
  linked in this order and the last link is null. \<open>clearNext\<close> nulls the eleven links, so
  two objects with equal \<open>clearNext\<close> differ in their links at most. \<open>linkedBlocks\<close> lists
  the structures that \<open>assembleFeatureChain\<close> links after the root, in the order of the
  source; \<open>chainInv\<close> is the invariant of its run: the chain built so far, the structures
  \<open>R\<close> reset so far, and the links not yet touched.
\<close>

definition allBlocks :: "BlockKind list" where
  "allBlocks = [B_Features2, B_SamplerYcbcrConversionFeatures, B_ShaderDrawParametersFeatures,
     B_MultiviewFeatures, B_BufferDeviceAddressFeaturesKHR, B_DescriptorIndexingFeaturesEXT,
     B_16BitStorageFeatures, B_ShaderFloat16Int8Features, B_IndexTypeUint8Features,
     B_Synchronization2Features, B_TimelineSemaphoreFeatures]"

definition clearNext :: "VulkanFeatures \<Rightarrow> VulkanFeatures" where
  "clearNext s = fold (\<lambda>k. setNext k None) allBlocks s"

fun isChain :: "addr \<Rightarrow> VulkanFeatures \<Rightarrow> BlockKind list \<Rightarrow> bool" where
  "isChain this s [] = False"
| "isChain this s [k] = (getNext s k = None)"
| "isChain this s (k # k' # ks) = (getNext s k = Some (this, k') \<and> isChain this s (k' # ks))"

definition chainInv ::
  "addr \<Rightarrow> VulkanFeatures \<Rightarrow> VulkanFeatures \<Rightarrow> BlockKind list \<Rightarrow> BlockKind set \<Rightarrow> bool" where
  "chainInv this s0 s L R \<longleftrightarrow>
     isChain this s (B_Features2 # L) \<and> distinct (B_Features2 # L) \<and>
     (\<forall>k\<in>R. k \<notin> set (B_Features2 # L) \<longrightarrow> getNext s k = None) \<and>
     (\<forall>k. k \<notin> R \<longrightarrow> k \<notin> set (B_Features2 # L) \<longrightarrow> getNext s k = getNext s0 k) \<and>
     clearNext s = clearNext s0"

definition resetFirst :: "BlockKind set" where
  "resetFirst = {B_Features2, B_SamplerYcbcrConversionFeatures, B_ShaderDrawParametersFeatures,
      B_MultiviewFeatures, B_IndexTypeUint8Features, B_Synchronization2Features,
      B_TimelineSemaphoreFeatures, B_ShaderFloat16Int8Features}"

definition requiredBlocks :: "32 word \<Rightarrow> BlockKind list" where
  "requiredBlocks version =
     [B_SamplerYcbcrConversionFeatures, B_ShaderDrawParametersFeatures, B_MultiviewFeatures] @
     (if VK_API_VERSION_1_2 \<le> version then [B_ShaderFloat16Int8Features] else [])"

definition configuredBlocks :: "VulkanContextConfig \<Rightarrow> BlockKind list" where
  "configuredBlocks config =
     (if enableBufferDeviceAddress config then [B_BufferDeviceAddressFeaturesKHR] else []) @
     (if enableDescriptorIndexing config then [B_DescriptorIndexingFeaturesEXT] else []) @
     [B_16BitStorageFeatures]"

definition extensionBlocks :: "VkExtensionProperties list \<Rightarrow> BlockKind list" where
  "extensionBlocks exts =
     (if hasExtension_loop VK_EXT_INDEX_TYPE_UINT8_EXTENSION_NAME exts
      then [B_IndexTypeUint8Features] else []) @
     (if hasExtension_loop VK_KHR_SYNCHRONIZATION_2_EXTENSION_NAME exts
      then [B_Synchronization2Features] else []) @
     (if hasExtension_loop VK_KHR_TIMELINE_SEMAPHORE_EXTENSION_NAME exts
      then [B_TimelineSemaphoreFeatures] else [])"

definition linkedBlocks ::
  "32 word \<Rightarrow> VulkanContextConfig \<Rightarrow> VkExtensionProperties list \<Rightarrow> BlockKind list" where
  "linkedBlocks version config exts =
     requiredBlocks version @ configuredBlocks config @ extensionBlocks exts"

subsection \<open>Vocabulary of the statements: feature fields and the report\<close>

text \<open>
  The boolean feature fields that the source names, one constructor per field
  (\<open>F_\<close> and the field's name), with the value of a field in an object and the text
  by which \<open>checkSelectedFeatures\<close> would name it: the requested structure as the
  macro stringifies it, and the field.
\<close>

datatype Feature =
    F_dualSrcBlend
  | F_shaderInt16
  | F_multiDrawIndirect
  | F_drawIndirectFirstInstance
  | F_depthBiasClamp
  | F_fillModeNonSolid
  | F_samplerYcbcrConversion
  | F_shaderDrawParameters
  | F_multiview
  | F_multiviewGeometryShader
  | F_multiviewTessellationShader
  | F_bufferDeviceAddress
  | F_bufferDeviceAddressCaptureReplay
  | F_bufferDeviceAddressMultiDevice
  | F_shaderInputAttachmentArrayDynamicIndexing
  | F_shaderUniformTexelBufferArrayDynamicIndexing
  | F_shaderStorageTexelBufferArrayDynamicIndexing
  | F_shaderUniformBufferArrayNonUniformIndexing
  | F_shaderSampledImageArrayNonUniformIndexing
  | F_shaderStorageBufferArrayNonUniformIndexing
  | F_shaderStorageImageArrayNonUniformIndexing
  | F_shaderInputAttachmentArrayNonUniformIndexing
  | F_shaderUniformTexelBufferArrayNonUniformIndexing
  | F_shaderStorageTexelBufferArrayNonUniformIndexing
  | F_descriptorBindingUniformBufferUpdateAfterBind
  | F_descriptorBindingSampledImageUpdateAfterBind
  | F_descriptorBindingStorageImageUpdateAfterBind
  | F_descriptorBindingStorageBufferUpdateAfterBind
  | F_descriptorBindingUniformTexelBufferUpdateAfterBind
  | F_descriptorBindingStorageTexelBufferUpdateAfterBind
  | F_descriptorBindingUpdateUnusedWhilePending
  | F_descriptorBindingPartiallyBound
  | F_descriptorBindingVariableDescriptorCount
  | F_runtimeDescriptorArray
  | F_storageBuffer16BitAccess
  | F_uniformAndStorageBuffer16BitAccess
  | F_storagePushConstant16
  | F_storageInputOutput16
  | F_shaderFloat16
  | F_shaderInt8
  | F_indexTypeUint8
  | F_synchronization2
  | F_timelineSemaphore

fun fieldValue :: "VulkanFeatures \<Rightarrow> Feature \<Rightarrow> VkBool32" where
  "fieldValue s F_dualSrcBlend = dualSrcBlend (features (VkPhysicalDeviceFeatures2_m s))"
| "fieldValue s F_shaderInt16 = shaderInt16 (features (VkPhysicalDeviceFeatures2_m s))"
| "fieldValue s F_multiDrawIndirect = multiDrawIndirect (features (VkPhysicalDeviceFeatures2_m s))"
| "fieldValue s F_drawIndirectFirstInstance = drawIndirectFirstInstance (features (VkPhysicalDeviceFeatures2_m s))"
| "fieldValue s F_depthBiasClamp = depthBiasClamp (features (VkPhysicalDeviceFeatures2_m s))"
| "fieldValue s F_fillModeNonSolid = fillModeNonSolid (features (VkPhysicalDeviceFeatures2_m s))"
| "fieldValue s F_samplerYcbcrConversion = samplerYcbcrConversion (VkPhysicalDeviceSamplerYcbcrConversionFeatures_m s)"
| "fieldValue s F_shaderDrawParameters = shaderDrawParameters (VkPhysicalDeviceShaderDrawParametersFeatures_m s)"
| "fieldValue s F_multiview = multiview (VkPhysicalDeviceMultiviewFeatures_m s)"
| "fieldValue s F_multiviewGeometryShader = multiviewGeometryShader (VkPhysicalDeviceMultiviewFeatures_m s)"
| "fieldValue s F_multiviewTessellationShader = multiviewTessellationShader (VkPhysicalDeviceMultiviewFeatures_m s)"
| "fieldValue s F_bufferDeviceAddress = bufferDeviceAddress (VkPhysicalDeviceBufferDeviceAddressFeaturesKHR_m s)"
| "fieldValue s F_bufferDeviceAddressCaptureReplay = bufferDeviceAddressCaptureReplay (VkPhysicalDeviceBufferDeviceAddressFeaturesKHR_m s)"
| "fieldValue s F_bufferDeviceAddressMultiDevice = bufferDeviceAddressMultiDevice (VkPhysicalDeviceBufferDeviceAddressFeaturesKHR_m s)"
| "fieldValue s F_shaderInputAttachmentArrayDynamicIndexing = shaderInputAttachmentArrayDynamicIndexing (VkPhysicalDeviceDescriptorIndexingFeaturesEXT_m s)"
| "fieldValue s F_shaderUniformTexelBufferArrayDynamicIndexing = shaderUniformTexelBufferArrayDynamicIndexing (VkPhysicalDeviceDescriptorIndexingFeaturesEXT_m s)"
| "fieldValue s F_shaderStorageTexelBufferArrayDynamicIndexing = shaderStorageTexelBufferArrayDynamicIndexing (VkPhysicalDeviceDescriptorIndexingFeaturesEXT_m s)"
| "fieldValue s F_shaderUniformBufferArrayNonUniformIndexing = shaderUniformBufferArrayNonUniformIndexing (VkPhysicalDeviceDescriptorIndexingFeaturesEXT_m s)"
| "fieldValue s F_shaderSampledImageArrayNonUniformIndexing = shaderSampledImageArrayNonUniformIndexing (VkPhysicalDeviceDescriptorIndexingFeaturesEXT_m s)"
| "fieldValue s F_shaderStorageBufferArrayNonUniformIndexing = shaderStorageBufferArrayNonUniformIndexing (VkPhysicalDeviceDescriptorIndexingFeaturesEXT_m s)"
| "fieldValue s F_shaderStorageImageArrayNonUniformIndexing = shaderStorageImageArrayNonUniformIndexing (VkPhysicalDeviceDescriptorIndexingFeaturesEXT_m s)"
| "fieldValue s F_shaderInputAttachmentArrayNonUniformIndexing = shaderInputAttachmentArrayNonUniformIndexing (VkPhysicalDeviceDescriptorIndexingFeaturesEXT_m s)"
| "fieldValue s F_shaderUniformTexelBufferArrayNonUniformIndexing = shaderUniformTexelBufferArrayNonUniformIndexing (VkPhysicalDeviceDescriptorIndexingFeaturesEXT_m s)"
| "fieldValue s F_shaderStorageTexelBufferArrayNonUniformIndexing = shaderStorageTexelBufferArrayNonUniformIndexing (VkPhysicalDeviceDescriptorIndexingFeaturesEXT_m s)"
| "fieldValue s F_descriptorBindingUniformBufferUpdateAfterBind = descriptorBindingUniformBufferUpdateAfterBind (VkPhysicalDeviceDescriptorIndexingFeaturesEXT_m s)"
| "fieldValue s F_descriptorBindingSampledImageUpdateAfterBind = descriptorBindingSampledImageUpdateAfterBind (VkPhysicalDeviceDescriptorIndexingFeaturesEXT_m s)"
| "fieldValue s F_descriptorBindingStorageImageUpdateAfterBind = descriptorBindingStorageImageUpdateAfterBind (VkPhysicalDeviceDescriptorIndexingFeaturesEXT_m s)"
| "fieldValue s F_descriptorBindingStorageBufferUpdateAfterBind = descriptorBindingStorageBufferUpdateAfterBind (VkPhysicalDeviceDescriptorIndexingFeaturesEXT_m s)"
| "fieldValue s F_descriptorBindingUniformTexelBufferUpdateAfterBind = descriptorBindingUniformTexelBufferUpdateAfterBind (VkPhysicalDeviceDescriptorIndexingFeaturesEXT_m s)"
| "fieldValue s F_descriptorBindingStorageTexelBufferUpdateAfterBind = descriptorBindingStorageTexelBufferUpdateAfterBind (VkPhysicalDeviceDescriptorIndexingFeaturesEXT_m s)"
| "fieldValue s F_descriptorBindingUpdateUnusedWhilePending = descriptorBindingUpdateUnusedWhilePending (VkPhysicalDeviceDescriptorIndexingFeaturesEXT_m s)"
| "fieldValue s F_descriptorBindingPartiallyBound = descriptorBindingPartiallyBound (VkPhysicalDeviceDescriptorIndexingFeaturesEXT_m s)"
| "fieldValue s F_descriptorBindingVariableDescriptorCount = descriptorBindingVariableDescriptorCount (VkPhysicalDeviceDescriptorIndexingFeaturesEXT_m s)"
| "fieldValue s F_runtimeDescriptorArray = runtimeDescriptorArray (VkPhysicalDeviceDescriptorIndexingFeaturesEXT_m s)"
| "fieldValue s F_storageBuffer16BitAccess = storageBuffer16BitAccess (VkPhysicalDevice16BitStorageFeatures_m s)"
| "fieldValue s F_uniformAndStorageBuffer16BitAccess = uniformAndStorageBuffer16BitAccess (VkPhysicalDevice16BitStorageFeatures_m s)"
| "fieldValue s F_storagePushConstant16 = storagePushConstant16 (VkPhysicalDevice16BitStorageFeatures_m s)"
| "fieldValue s F_storageInputOutput16 = storageInputOutput16 (VkPhysicalDevice16BitStorageFeatures_m s)"
| "fieldValue s F_shaderFloat16 = shaderFloat16 (VkPhysicalDeviceShaderFloat16Int8Features_m s)"
| "fieldValue s F_shaderInt8 = shaderInt8 (VkPhysicalDeviceShaderFloat16Int8Features_m s)"
| "fieldValue s F_indexTypeUint8 = indexTypeUint8 (VkPhysicalDeviceIndexTypeUint8Features_m s)"
| "fieldValue s F_synchronization2 = synchronization2 (VkPhysicalDeviceSynchronization2Features_m s)"
| "fieldValue s F_timelineSemaphore = timelineSemaphore (VkPhysicalDeviceTimelineSemaphoreFeatures_m s)"

fun structName :: "Feature \<Rightarrow> string" where
  "structName F_dualSrcBlend = ''VkPhysicalDeviceFeatures2_.features''"
| "structName F_shaderInt16 = ''VkPhysicalDeviceFeatures2_.features''"
| "structName F_multiDrawIndirect = ''VkPhysicalDeviceFeatures2_.features''"
| "structName F_drawIndirectFirstInstance = ''VkPhysicalDeviceFeatures2_.features''"
| "structName F_depthBiasClamp = ''VkPhysicalDeviceFeatures2_.features''"
| "structName F_fillModeNonSolid = ''VkPhysicalDeviceFeatures2_.features''"
| "structName F_samplerYcbcrConversion = ''VkPhysicalDeviceSamplerYcbcrConversionFeatures_''"
| "structName F_shaderDrawParameters = ''VkPhysicalDeviceShaderDrawParametersFeatures_''"
| "structName F_multiview = ''VkPhysicalDeviceMultiviewFeatures_''"
| "structName F_multiviewGeometryShader = ''VkPhysicalDeviceMultiviewFeatures_''"
| "structName F_multiviewTessellationShader = ''VkPhysicalDeviceMultiviewFeatures_''"
| "structName F_bufferDeviceAddress = ''VkPhysicalDeviceBufferDeviceAddressFeaturesKHR_''"
| "structName F_bufferDeviceAddressCaptureReplay = ''VkPhysicalDeviceBufferDeviceAddressFeaturesKHR_''"
| "structName F_bufferDeviceAddressMultiDevice = ''VkPhysicalDeviceBufferDeviceAddressFeaturesKHR_''"
| "structName F_shaderInputAttachmentArrayDynamicIndexing = ''VkPhysicalDeviceDescriptorIndexingFeaturesEXT_''"
| "structName F_shaderUniformTexelBufferArrayDynamicIndexing = ''VkPhysicalDeviceDescriptorIndexingFeaturesEXT_''"
| "structName F_shaderStorageTexelBufferArrayDynamicIndexing = ''VkPhysicalDeviceDescriptorIndexingFeaturesEXT_''"
| "structName F_shaderUniformBufferArrayNonUniformIndexing = ''VkPhysicalDeviceDescriptorIndexingFeaturesEXT_''"
| "structName F_shaderSampledImageArrayNonUniformIndexing = ''VkPhysicalDeviceDescriptorIndexingFeaturesEXT_''"
| "structName F_shaderStorageBufferArrayNonUniformIndexing = ''VkPhysicalDeviceDescriptorIndexingFeaturesEXT_''"
| "structName F_shaderStorageImageArrayNonUniformIndexing = ''VkPhysicalDeviceDescriptorIndexingFeaturesEXT_''"
| "structName F_shaderInputAttachmentArrayNonUniformIndexing = ''VkPhysicalDeviceDescriptorIndexingFeaturesEXT_''"
| "structName F_shaderUniformTexelBufferArrayNonUniformIndexing = ''VkPhysicalDeviceDescriptorIndexingFeaturesEXT_''"
| "structName F_shaderStorageTexelBufferArrayNonUniformIndexing = ''VkPhysicalDeviceDescriptorIndexingFeaturesEXT_''"
| "structName F_descriptorBindingUniformBufferUpdateAfterBind = ''VkPhysicalDeviceDescriptorIndexingFeaturesEXT_''"
| "structName F_descriptorBindingSampledImageUpdateAfterBind = ''VkPhysicalDeviceDescriptorIndexingFeaturesEXT_''"
| "structName F_descriptorBindingStorageImageUpdateAfterBind = ''VkPhysicalDeviceDescriptorIndexingFeaturesEXT_''"
| "structName F_descriptorBindingStorageBufferUpdateAfterBind = ''VkPhysicalDeviceDescriptorIndexingFeaturesEXT_''"
| "structName F_descriptorBindingUniformTexelBufferUpdateAfterBind = ''VkPhysicalDeviceDescriptorIndexingFeaturesEXT_''"
| "structName F_descriptorBindingStorageTexelBufferUpdateAfterBind = ''VkPhysicalDeviceDescriptorIndexingFeaturesEXT_''"
| "structName F_descriptorBindingUpdateUnusedWhilePending = ''VkPhysicalDeviceDescriptorIndexingFeaturesEXT_''"
| "structName F_descriptorBindingPartiallyBound = ''VkPhysicalDeviceDescriptorIndexingFeaturesEXT_''"
| "structName F_descriptorBindingVariableDescriptorCount = ''VkPhysicalDeviceDescriptorIndexingFeaturesEXT_''"
| "structName F_runtimeDescriptorArray = ''VkPhysicalDeviceDescriptorIndexingFeaturesEXT_''"
| "structName F_storageBuffer16BitAccess = ''VkPhysicalDevice16BitStorageFeatures_''"
| "structName F_uniformAndStorageBuffer16BitAccess = ''VkPhysicalDevice16BitStorageFeatures_''"
| "structName F_storagePushConstant16 = ''VkPhysicalDevice16BitStorageFeatures_''"
| "structName F_storageInputOutput16 = ''VkPhysicalDevice16BitStorageFeatures_''"
| "structName F_shaderFloat16 = ''VkPhysicalDeviceShaderFloat16Int8Features_''"
| "structName F_shaderInt8 = ''VkPhysicalDeviceShaderFloat16Int8Features_''"
| "structName F_indexTypeUint8 = ''VkPhysicalDeviceIndexTypeUint8Features_''"
| "structName F_synchronization2 = ''VkPhysicalDeviceSynchronization2Features_''"
| "structName F_timelineSemaphore = ''VkPhysicalDeviceTimelineSemaphoreFeatures_''"

fun fieldName :: "Feature \<Rightarrow> string" where
  "fieldName F_dualSrcBlend = ''dualSrcBlend''"
| "fieldName F_shaderInt16 = ''shaderInt16''"
| "fieldName F_multiDrawIndirect = ''multiDrawIndirect''"
| "fieldName F_drawIndirectFirstInstance = ''drawIndirectFirstInstance''"
| "fieldName F_depthBiasClamp = ''depthBiasClamp''"
| "fieldName F_fillModeNonSolid = ''fillModeNonSolid''"
| "fieldName F_samplerYcbcrConversion = ''samplerYcbcrConversion''"
| "fieldName F_shaderDrawParameters = ''shaderDrawParameters''"
| "fieldName F_multiview = ''multiview''"
| "fieldName F_multiviewGeometryShader = ''multiviewGeometryShader''"
| "fieldName F_multiviewTessellationShader = ''multiviewTessellationShader''"
| "fieldName F_bufferDeviceAddress = ''bufferDeviceAddress''"
| "fieldName F_bufferDeviceAddressCaptureReplay = ''bufferDeviceAddressCaptureReplay''"
| "fieldName F_bufferDeviceAddressMultiDevice = ''bufferDeviceAddressMultiDevice''"
| "fieldName F_shaderInputAttachmentArrayDynamicIndexing = ''shaderInputAttachmentArrayDynamicIndexing''"
| "fieldName F_shaderUniformTexelBufferArrayDynamicIndexing = ''shaderUniformTexelBufferArrayDynamicIndexing''"
| "fieldName F_shaderStorageTexelBufferArrayDynamicIndexing = ''shaderStorageTexelBufferArrayDynamicIndexing''"
| "fieldName F_shaderUniformBufferArrayNonUniformIndexing = ''shaderUniformBufferArrayNonUniformIndexing''"
| "fieldName F_shaderSampledImageArrayNonUniformIndexing = ''shaderSampledImageArrayNonUniformIndexing''"
| "fieldName F_shaderStorageBufferArrayNonUniformIndexing = ''shaderStorageBufferArrayNonUniformIndexing''"
| "fieldName F_shaderStorageImageArrayNonUniformIndexing = ''shaderStorageImageArrayNonUniformIndexing''"
| "fieldName F_shaderInputAttachmentArrayNonUniformIndexing = ''shaderInputAttachmentArrayNonUniformIndexing''"
| "fieldName F_shaderUniformTexelBufferArrayNonUniformIndexing = ''shaderUniformTexelBufferArrayNonUniformIndexing''"
| "fieldName F_shaderStorageTexelBufferArrayNonUniformIndexing = ''shaderStorageTexelBufferArrayNonUniformIndexing''"
| "fieldName F_descriptorBindingUniformBufferUpdateAfterBind = ''descriptorBindingUniformBufferUpdateAfterBind''"
| "fieldName F_descriptorBindingSampledImageUpdateAfterBind = ''descriptorBindingSampledImageUpdateAfterBind''"
| "fieldName F_descriptorBindingStorageImageUpdateAfterBind = ''descriptorBindingStorageImageUpdateAfterBind''"
| "fieldName F_descriptorBindingStorageBufferUpdateAfterBind = ''descriptorBindingStorageBufferUpdateAfterBind''"
| "fieldName F_descriptorBindingUniformTexelBufferUpdateAfterBind = ''descriptorBindingUniformTexelBufferUpdateAfterBind''"
| "fieldName F_descriptorBindingStorageTexelBufferUpdateAfterBind = ''descriptorBindingStorageTexelBufferUpdateAfterBind''"
| "fieldName F_descriptorBindingUpdateUnusedWhilePending = ''descriptorBindingUpdateUnusedWhilePending''"
| "fieldName F_descriptorBindingPartiallyBound = ''descriptorBindingPartiallyBound''"
| "fieldName F_descriptorBindingVariableDescriptorCount = ''descriptorBindingVariableDescriptorCount''"
| "fieldName F_runtimeDescriptorArray = ''runtimeDescriptorArray''"
| "fieldName F_storageBuffer16BitAccess = ''storageBuffer16BitAccess''"
| "fieldName F_uniformAndStorageBuffer16BitAccess = ''uniformAndStorageBuffer16BitAccess''"
| "fieldName F_storagePushConstant16 = ''storagePushConstant16''"
| "fieldName F_storageInputOutput16 = ''storageInputOutput16''"
| "fieldName F_shaderFloat16 = ''shaderFloat16''"
| "fieldName F_shaderInt8 = ''shaderInt8''"
| "fieldName F_indexTypeUint8 = ''indexTypeUint8''"
| "fieldName F_synchronization2 = ''synchronization2''"
| "fieldName F_timelineSemaphore = ''timelineSemaphore''"

text \<open>
  The checks of \<open>checkSelectedFeatures\<close> as a table, in the order of the source: the tag
  and the field of each, for a requested set with configuration \<open>config\<close>.
\<close>

definition checks :: "VulkanContextConfig \<Rightarrow> (string \<times> Feature) list" where
  "checks config =
     [(''1.1'', F_dualSrcBlend), (''1.1'', F_shaderInt16),
      (''1.1'', F_multiDrawIndirect), (''1.1'', F_drawIndirectFirstInstance),
      (''1.1'', F_depthBiasClamp), (''1.1'', F_fillModeNonSolid)] @
     (if enableDescriptorIndexing config
      then [(''1.1 EXT'', F_shaderSampledImageArrayNonUniformIndexing),
            (''1.1 EXT'', F_descriptorBindingUniformBufferUpdateAfterBind),
            (''1.1 EXT'', F_descriptorBindingSampledImageUpdateAfterBind),
            (''1.1 EXT'', F_descriptorBindingStorageImageUpdateAfterBind),
            (''1.1 EXT'', F_descriptorBindingStorageBufferUpdateAfterBind),
            (''1.1 EXT'', F_descriptorBindingUpdateUnusedWhilePending),
            (''1.1 EXT'', F_descriptorBindingPartiallyBound),
            (''1.1 EXT'', F_runtimeDescriptorArray)]
      else []) @
     [(''1.1 EXT'', F_storageBuffer16BitAccess)] @
     (if enableBufferDeviceAddress config then [(''1.1 EXT'', F_bufferDeviceAddress)] else []) @
     [(''1.1 EXT'', F_multiview), (''1.1 EXT'', F_samplerYcbcrConversion),
      (''1.1 EXT'', F_shaderDrawParameters), (''1.2'', F_shaderFloat16)]"

text \<open>The checks that fail: requested \<open>VK_TRUE\<close>, available \<open>VK_FALSE\<close>.\<close>

definition missingChecks :: "VulkanFeatures \<Rightarrow> VulkanFeatures \<Rightarrow> (string \<times> Feature) list" where
  "missingChecks R A =
     filter (\<lambda>c. fieldValue R (snd c) = VK_TRUE \<and> fieldValue A (snd c) = VK_FALSE)
       (checks (config_m R))"

text \<open>The entry of a field as the spec writes it: tag, a space, the structure, a dot, the
  field.\<close>

definition reportEntry :: "string \<times> Feature \<Rightarrow> string" where
  "reportEntry c = fst c @ '' '' @ structName (snd c) @ ''.'' @ fieldName (snd c)"

text \<open>A text cut at its newline characters, and texts joined by newline characters.\<close>

fun splitLines :: "string \<Rightarrow> string list" where
  "splitLines [] = [[]]"
| "splitLines (c # cs) =
     (if c = CHR 0x0A then [] # splitLines cs
      else (case splitLines cs of [] \<Rightarrow> [[c]] | l # ls \<Rightarrow> (c # l) # ls))"

fun newlineJoined :: "string list \<Rightarrow> string" where
  "newlineJoined [] = []"
| "newlineJoined [l] = l"
| "newlineJoined (l # l' # ls) = l @ ''\<newline>'' @ newlineJoined (l' # ls)"

subsection \<open>The constructed object, and the inputs of the examples\<close>

text \<open>
  The object that the constructor leaves at address \<open>this\<close>, in closed form: the member
  initialisers, with the structures that \<open>assembleFeatureChain\<close> links for an empty
  extension list chained in order (lemma \<open>ctor_constructed\<close> below).
\<close>

fun linkChain :: "addr \<Rightarrow> BlockKind list \<Rightarrow> VulkanFeatures \<Rightarrow> VulkanFeatures" where
  "linkChain this (k # k' # ks) s = linkChain this (k' # ks) (setNext k (Some (this, k')) s)"
| "linkChain this ks s = s"

definition constructed :: "addr \<Rightarrow> 32 word \<Rightarrow> VulkanContextConfig \<Rightarrow> VulkanFeatures" where
  "constructed this version config =
     linkChain this (B_Features2 # linkedBlocks version config [])
       (VulkanFeatures_members version config)"

definition desktopBuild :: BuildConfig where
  "desktopBuild = \<lparr>IGL_PLATFORM_APPLE = False, IGL_PLATFORM_ANDROID = False\<rparr>"

definition appleBuild :: BuildConfig where
  "appleBuild = \<lparr>IGL_PLATFORM_APPLE = True, IGL_PLATFORM_ANDROID = False\<rparr>"

definition exampleConfig :: VulkanContextConfig where
  "exampleConfig =
     \<lparr>enableBufferDeviceAddress = False, enableDescriptorIndexing = False,
      enableDualSrcBlend = True, enableShaderInt16 = False,
      enableStorageBuffer16BitAccess = False, enableShaderDrawParameters = False\<rparr>"

text \<open>A requested set: constructed for Vulkan 1.1 at address 1, defaults applied. It
  requests dual-source blending, multiview and the two synchronization features among
  others.\<close>

definition exampleRequested :: VulkanFeatures where
  "exampleRequested =
     enableDefaultFeatures1_1 desktopBuild (constructed 1 VK_API_VERSION_1_1 exampleConfig)"

text \<open>Available sets at address 2: a device that has all that \<open>exampleRequested\<close> asks
  for; one without dual-source blending and multiview; one without
  \<open>synchronization2\<close>; and one queried for Vulkan 1.2.\<close>

definition exampleAvailable :: VulkanFeatures where
  "exampleAvailable =
     enableDefaultFeatures1_1 desktopBuild (constructed 2 VK_API_VERSION_1_1 exampleConfig)"

definition exampleAvailable_lacking :: VulkanFeatures where
  "exampleAvailable_lacking =
     exampleAvailable
       \<lparr>VkPhysicalDeviceFeatures2_m := (VkPhysicalDeviceFeatures2_m exampleAvailable)
          \<lparr>features := (features (VkPhysicalDeviceFeatures2_m exampleAvailable))
             \<lparr>dualSrcBlend := VK_FALSE\<rparr>\<rparr>,
        VkPhysicalDeviceMultiviewFeatures_m :=
          (VkPhysicalDeviceMultiviewFeatures_m exampleAvailable)\<lparr>multiview := VK_FALSE\<rparr>\<rparr>"

definition exampleAvailable_noSync2 :: VulkanFeatures where
  "exampleAvailable_noSync2 =
     exampleAvailable
       \<lparr>VkPhysicalDeviceSynchronization2Features_m :=
          (VkPhysicalDeviceSynchronization2Features_m exampleAvailable)
            \<lparr>synchronization2 := VK_FALSE\<rparr>\<rparr>"

definition exampleAvailable_1_2 :: VulkanFeatures where
  "exampleAvailable_1_2 =
     enableDefaultFeatures1_1 desktopBuild (constructed 2 VK_API_VERSION_1_2 exampleConfig)"

text \<open>The object at address 2 in \<open>populateWithAvailablePhysicalDeviceFeatures\<close>, between
  the enumeration of the extensions and \<open>assembleFeatureChain\<close>: the device advertises
  \<open>VK_KHR_synchronization2\<close> and a name that differs from
  \<open>VK_EXT_index_type_uint8\<close> in case only.\<close>

definition exampleEnumerated :: VulkanFeatures where
  "exampleEnumerated =
     (constructed 2 VK_API_VERSION_1_2 (exampleConfig\<lparr>enableBufferDeviceAddress := True\<rparr>))
       \<lparr>extensions_m :=
          [\<lparr>extensionName = ''VK_KHR_synchronization2'', specVersion = 1\<rparr>,
           \<lparr>extensionName = ''vk_ext_index_type_uint8'', specVersion = 1\<rparr>]\<rparr>"

text \<open>The object at address 1 in \<open>*this = other\<close> after the member-wise copy (line 361)
  from an object at address 9, both constructed with buffer device address enabled: its
  links are those of the other object. \<open>exampleCopied_306\<close> is that object after lines 291
  to 306 of \<open>assembleFeatureChain\<close>.\<close>

definition exampleCopied :: VulkanFeatures where
  "exampleCopied =
     operator_assign_copy
       (constructed 9 VK_API_VERSION_1_1 (exampleConfig\<lparr>enableBufferDeviceAddress := True\<rparr>))
       (constructed 1 VK_API_VERSION_1_1 (exampleConfig\<lparr>enableBufferDeviceAddress := True\<rparr>))"

definition exampleCopied_306 :: VulkanFeatures where
  "exampleCopied_306 =
     linkChain 1
       [B_Features2, B_SamplerYcbcrConversionFeatures, B_ShaderDrawParametersFeatures,
        B_MultiviewFeatures]
       (assembleFeatureChain_reset exampleCopied)"

text \<open>Two objects whose configurations differ in \<open>enableShaderInt16\<close> only: a destination
  constructed at address 1, and at address 2 a source with its defaults applied; the
  store that holds them; and the destination after \<open>*this = other\<close>, which has the fields
  and the extension list of the source and its own chain.\<close>

definition exampleDestination :: VulkanFeatures where
  "exampleDestination = constructed 1 VK_API_VERSION_1_1 exampleConfig"

definition exampleSource :: VulkanFeatures where
  "exampleSource =
     enableDefaultFeatures1_1 desktopBuild
       (constructed 2 VK_API_VERSION_1_1 (exampleConfig\<lparr>enableShaderInt16 := True\<rparr>))"

definition exampleStore :: store where
  "exampleStore = [1 \<mapsto> exampleDestination, 2 \<mapsto> exampleSource]"

definition exampleAssigned :: VulkanFeatures where
  "exampleAssigned =
     linkChain 1
       [B_Features2, B_SamplerYcbcrConversionFeatures, B_ShaderDrawParametersFeatures,
        B_MultiviewFeatures, B_16BitStorageFeatures]
       (clearNext (operator_assign_copy exampleSource exampleDestination))"

text \<open>A store of two objects of different API versions.\<close>

definition exampleStore_versions :: store where
  "exampleStore_versions =
     [1 \<mapsto> exampleDestination,
      2 \<mapsto> enableDefaultFeatures1_1 desktopBuild
             (constructed 2 VK_API_VERSION_1_2 exampleConfig)]"

text \<open>A requested set that also asks for \<open>multiviewGeometryShader\<close>, a field of the
  multiview structure, which every chain holds.\<close>

definition exampleRequested_geometry :: VulkanFeatures where
  "exampleRequested_geometry =
     exampleRequested
       \<lparr>VkPhysicalDeviceMultiviewFeatures_m :=
          (VkPhysicalDeviceMultiviewFeatures_m exampleRequested)
            \<lparr>multiviewGeometryShader := VK_TRUE\<rparr>\<rparr>"

section \<open>Lemmas\<close>

subsection \<open>Links and chains\<close>

lemma getNext_setNext: "getNext (setNext k p s) j = (if j = k then p else getNext s j)"
  by (cases k; cases j; simp)

lemma setNext_frame [simp]:
  "version_m (setNext k p s) = version_m s"
  "extensions_m (setNext k p s) = extensions_m s"
  "config_m (setNext k p s) = config_m s"
  by (cases k; simp)+

lemma clearNext_setNext: "clearNext (setNext k p s) = clearNext s"
  by (cases k; simp add: clearNext_def allBlocks_def)

lemma restore: "fold (\<lambda>k. setNext k (getNext s k)) allBlocks (clearNext s) = s"
  by (simp add: clearNext_def allBlocks_def)

lemma state_ext:
  assumes "clearNext s = clearNext t" and "\<And>k. getNext s k = getNext t k"
  shows "s = t"
proof -
  have "s = fold (\<lambda>k. setNext k (getNext s k)) allBlocks (clearNext s)" by (simp only: restore)
  also have "\<dots> = fold (\<lambda>k. setNext k (getNext t k)) allBlocks (clearNext t)"
    using assms by simp
  also have "\<dots> = t" by (simp only: restore)
  finally show ?thesis .
qed

declare setNext.simps [simp del] getNext.simps [simp del]

lemma last_of_chain: "isChain this s (k # ks) \<Longrightarrow> ivkAddNext_last this s k = Some (last (k # ks))"
proof (induction ks arbitrary: k)
  case Nil
  then show ?case by (subst ivkAddNext_last.simps) simp
next
  case (Cons k' ks)
  then show ?case by (subst ivkAddNext_last.simps) simp
qed

lemma chain_read: "isChain this s (k # ks) \<Longrightarrow> pNextChain this s (Some (this, k)) = Some (k # ks)"
proof (induction ks arbitrary: k)
  case Nil
  then show ?case by (subst pNextChain.simps, simp, subst pNextChain.simps, simp)
next
  case (Cons k' ks)
  then show ?case by (subst pNextChain.simps) simp
qed

lemma isChain_setNext_other: "isChain this s ks \<Longrightarrow> j \<notin> set ks \<Longrightarrow> isChain this (setNext j p s) ks"
  by (induction this s ks rule: isChain.induct) (auto simp: getNext_setNext)

lemma isChain_append:
  "isChain this s ks \<Longrightarrow> distinct ks \<Longrightarrow> k \<notin> set ks \<Longrightarrow> getNext s k = None \<Longrightarrow>
   isChain this (setNext (last ks) (Some (this, k)) s) (ks @ [k])"
  by (induction this s ks rule: isChain.induct) (auto simp: getNext_setNext)

lemma clearNext_frame:
  "version_m (clearNext s) = version_m s"
  "extensions_m (clearNext s) = extensions_m s"
  "config_m (clearNext s) = config_m s"
  by (simp_all add: clearNext_def allBlocks_def)

lemma same_data_frame:
  assumes "clearNext s = clearNext t"
  shows "version_m s = version_m t" and "extensions_m s = extensions_m t"
    and "config_m s = config_m t"
proof -
  show "version_m s = version_m t"
    using arg_cong [OF assms, of version_m] by (simp only: clearNext_frame)
  show "extensions_m s = extensions_m t"
    using arg_cong [OF assms, of extensions_m] by (simp only: clearNext_frame)
  show "config_m s = config_m t"
    using arg_cong [OF assms, of config_m] by (simp only: clearNext_frame)
qed

lemma inv_add:
  assumes "chainInv this s0 s L R" and "k \<in> R" and "k \<notin> set (B_Features2 # L)"
  shows "\<exists>s'. ivkAddNext this B_Features2 k s = Some s' \<and> chainInv this s0 s' (L @ [k]) R"
proof -
  let ?e = "last (B_Features2 # L)"
  let ?s' = "setNext ?e (Some (this, k)) s"
  from assms have ch: "isChain this s (B_Features2 # L)" and d: "distinct (B_Features2 # L)"
    and kn: "getNext s k = None" and kf: "k \<notin> set (B_Features2 # L)"
    and cl: "\<forall>j\<in>R. j \<notin> set (B_Features2 # L) \<longrightarrow> getNext s j = None"
    and fr: "\<forall>j. j \<notin> R \<longrightarrow> j \<notin> set (B_Features2 # L) \<longrightarrow> getNext s j = getNext s0 j"
    and same: "clearNext s = clearNext s0"
    by (auto simp: chainInv_def)
  have run: "ivkAddNext this B_Features2 k s = Some ?s'"
    by (simp add: ivkAddNext_def last_of_chain [OF ch])
  have ch': "isChain this ?s' ((B_Features2 # L) @ [k])"
    by (rule isChain_append [OF ch d kf kn])
  have e_in: "?e \<in> set (B_Features2 # L)"
    by (rule last_in_set) simp
  have "\<forall>j\<in>R. j \<notin> set (B_Features2 # L @ [k]) \<longrightarrow> getNext ?s' j = None"
  proof (intro ballI impI)
    fix j assume j: "j \<in> R" and jn: "j \<notin> set (B_Features2 # L @ [k])"
    then have b: "j \<notin> set (B_Features2 # L)" by auto
    with cl j have a: "getNext s j = None" by auto
    from b e_in have "j \<noteq> ?e" by auto
    with a show "getNext ?s' j = None"
      by (simp add: getNext_setNext)
  qed
  moreover have "\<forall>j. j \<notin> R \<longrightarrow> j \<notin> set (B_Features2 # L @ [k]) \<longrightarrow> getNext ?s' j = getNext s0 j"
  proof (intro allI impI)
    fix j assume j: "j \<notin> R" and jn: "j \<notin> set (B_Features2 # L @ [k])"
    then have b: "j \<notin> set (B_Features2 # L)" by auto
    with fr j have a: "getNext s j = getNext s0 j" by auto
    from b e_in have "j \<noteq> ?e" by auto
    with a show "getNext ?s' j = getNext s0 j"
      by (simp add: getNext_setNext)
  qed
  moreover have "distinct (B_Features2 # L @ [k])" using d kf by auto
  moreover have "clearNext ?s' = clearNext s0" using same by (simp add: clearNext_setNext)
  ultimately have "chainInv this s0 ?s' (L @ [k]) R"
    using ch' by (simp add: chainInv_def)
  with run show ?thesis by blast
qed

lemma inv_add_if:
  assumes "chainInv this s0 s L R" and "k \<in> R" and "k \<notin> set (B_Features2 # L)"
  shows "\<exists>s'. (if c then ivkAddNext this B_Features2 k s else Some s) = Some s' \<and>
           chainInv this s0 s' (L @ (if c then [k] else [])) R"
  using inv_add [OF assms] assms(1) by (cases c) auto

lemma inv_reset:
  assumes "chainInv this s0 s L R" and "k \<notin> set (B_Features2 # L)"
  shows "chainInv this s0 (setNext k None s) L (insert k R)"
  using assms isChain_setNext_other [of this s "B_Features2 # L" k None]
  by (auto simp: chainInv_def getNext_setNext clearNext_setNext)

lemma inv_same:
  assumes "chainInv this s0 s L R"
  shows "version_m s = version_m s0" and "extensions_m s = extensions_m s0"
  using assms same_data_frame [of s s0] by (auto simp: chainInv_def)

lemma inv_init: "chainInv this s0 (assembleFeatureChain_reset s0) [] resetFirst"
  by (simp add: chainInv_def assembleFeatureChain_reset_def getNext_setNext clearNext_setNext
        resetFirst_def)

lemma required_inv:
  assumes "chainInv this s0 s [] resetFirst"
  shows "\<exists>s'. assembleFeatureChain_required this s = Some s' \<and>
     chainInv this s0 s' (requiredBlocks (version_m s0)) resetFirst"
proof -
  from inv_add [OF assms, of B_SamplerYcbcrConversionFeatures]
  obtain s1 where r1: "ivkAddNext this B_Features2 B_SamplerYcbcrConversionFeatures s = Some s1"
    and i1: "chainInv this s0 s1 [B_SamplerYcbcrConversionFeatures] resetFirst"
    by (auto simp: resetFirst_def)
  from inv_add [OF i1, of B_ShaderDrawParametersFeatures]
  obtain s2 where r2: "ivkAddNext this B_Features2 B_ShaderDrawParametersFeatures s1 = Some s2"
    and i2: "chainInv this s0 s2
      [B_SamplerYcbcrConversionFeatures, B_ShaderDrawParametersFeatures] resetFirst"
    by (auto simp: resetFirst_def)
  from inv_add [OF i2, of B_MultiviewFeatures]
  obtain s3 where r3: "ivkAddNext this B_Features2 B_MultiviewFeatures s2 = Some s3"
    and i3: "chainInv this s0 s3
      [B_SamplerYcbcrConversionFeatures, B_ShaderDrawParametersFeatures, B_MultiviewFeatures]
      resetFirst"
    by (auto simp: resetFirst_def)
  from inv_add_if [OF i3, of B_ShaderFloat16Int8Features "VK_API_VERSION_1_2 \<le> version_m s3"]
  obtain s4 where r4: "(if VK_API_VERSION_1_2 \<le> version_m s3
        then ivkAddNext this B_Features2 B_ShaderFloat16Int8Features s3 else Some s3) = Some s4"
    and i4: "chainInv this s0 s4 (requiredBlocks (version_m s3)) resetFirst"
    unfolding requiredBlocks_def by (auto simp: resetFirst_def)
  have "assembleFeatureChain_required this s = Some s4"
    using r1 r2 r3 r4 by (simp add: assembleFeatureChain_required_def)
  with i4 inv_same(1) [OF i3] show ?thesis by auto
qed

lemma configured_inv:
  assumes "chainInv this s0 s L R"
    and "B_BufferDeviceAddressFeaturesKHR \<notin> set (B_Features2 # L)"
    and "B_DescriptorIndexingFeaturesEXT \<notin> set (B_Features2 # L)"
    and "B_16BitStorageFeatures \<notin> set (B_Features2 # L)"
  shows "\<exists>s'. assembleFeatureChain_configured this config s = Some s' \<and>
     chainInv this s0 s' (L @ configuredBlocks config)
       (insert B_16BitStorageFeatures (insert B_DescriptorIndexingFeaturesEXT
          (insert B_BufferDeviceAddressFeaturesKHR R)))"
proof -
  let ?bda = "enableBufferDeviceAddress config" and ?di = "enableDescriptorIndexing config"
  let ?L1 = "L @ (if ?bda then [B_BufferDeviceAddressFeaturesKHR] else [])"
  let ?L2 = "?L1 @ (if ?di then [B_DescriptorIndexingFeaturesEXT] else [])"
  let ?R1 = "insert B_BufferDeviceAddressFeaturesKHR R"
  let ?R2 = "insert B_DescriptorIndexingFeaturesEXT ?R1"
  let ?R3 = "insert B_16BitStorageFeatures ?R2"
  have a0: "chainInv this s0 (setNext B_BufferDeviceAddressFeaturesKHR None s) L ?R1"
    by (rule inv_reset [OF assms(1,2)])
  from inv_add_if [OF a0 _ assms(2), of ?bda]
  obtain s1 where r1: "(if ?bda then ivkAddNext this B_Features2 B_BufferDeviceAddressFeaturesKHR
        (setNext B_BufferDeviceAddressFeaturesKHR None s)
      else Some (setNext B_BufferDeviceAddressFeaturesKHR None s)) = Some s1"
    and i1: "chainInv this s0 s1 ?L1 ?R1"
    by auto
  have n1: "B_DescriptorIndexingFeaturesEXT \<notin> set (B_Features2 # ?L1)"
    using assms(3) by auto
  have a1: "chainInv this s0 (setNext B_DescriptorIndexingFeaturesEXT None s1) ?L1 ?R2"
    by (rule inv_reset [OF i1 n1])
  from inv_add_if [OF a1 _ n1, of ?di]
  obtain s2 where r2: "(if ?di then ivkAddNext this B_Features2 B_DescriptorIndexingFeaturesEXT
        (setNext B_DescriptorIndexingFeaturesEXT None s1)
      else Some (setNext B_DescriptorIndexingFeaturesEXT None s1)) = Some s2"
    and i2: "chainInv this s0 s2 ?L2 ?R2"
    by auto
  have n2: "B_16BitStorageFeatures \<notin> set (B_Features2 # ?L2)"
    using assms(4) by auto
  have a2: "chainInv this s0 (setNext B_16BitStorageFeatures None s2) ?L2 ?R3"
    by (rule inv_reset [OF i2 n2])
  from inv_add [OF a2 _ n2]
  obtain s3 where r3: "ivkAddNext this B_Features2 B_16BitStorageFeatures
        (setNext B_16BitStorageFeatures None s2) = Some s3"
    and i3: "chainInv this s0 s3 (?L2 @ [B_16BitStorageFeatures]) ?R3"
    by auto
  have run: "assembleFeatureChain_configured this config s = Some s3"
    using r1 r2 r3 by (simp add: assembleFeatureChain_configured_def Let_def)
  have "chainInv this s0 s3 (L @ configuredBlocks config) ?R3"
    using i3 by (simp add: configuredBlocks_def)
  with run show ?thesis by blast
qed

lemma extensions_inv:
  assumes "chainInv this s0 s L R"
    and "{B_IndexTypeUint8Features, B_Synchronization2Features, B_TimelineSemaphoreFeatures} \<subseteq> R"
    and "B_IndexTypeUint8Features \<notin> set (B_Features2 # L)"
    and "B_Synchronization2Features \<notin> set (B_Features2 # L)"
    and "B_TimelineSemaphoreFeatures \<notin> set (B_Features2 # L)"
  shows "\<exists>s'. assembleFeatureChain_extensions this s = Some s' \<and>
     chainInv this s0 s' (L @ extensionBlocks (extensions_m s0)) R"
proof -
  let ?c1 = "hasExtension s VK_EXT_INDEX_TYPE_UINT8_EXTENSION_NAME"
  let ?L1 = "L @ (if ?c1 then [B_IndexTypeUint8Features] else [])"
  from inv_add_if [OF assms(1) _ assms(3), of ?c1] assms(2)
  obtain s1 where r1: "(if ?c1 then ivkAddNext this B_Features2 B_IndexTypeUint8Features s
      else Some s) = Some s1"
    and i1: "chainInv this s0 s1 ?L1 R"
    by auto
  let ?c2 = "hasExtension s1 VK_KHR_SYNCHRONIZATION_2_EXTENSION_NAME"
  let ?L2 = "?L1 @ (if ?c2 then [B_Synchronization2Features] else [])"
  have n1: "B_Synchronization2Features \<notin> set (B_Features2 # ?L1)"
    using assms(4) by auto
  from inv_add_if [OF i1 _ n1, of ?c2] assms(2)
  obtain s2 where r2: "(if ?c2 then ivkAddNext this B_Features2 B_Synchronization2Features s1
      else Some s1) = Some s2"
    and i2: "chainInv this s0 s2 ?L2 R"
    by auto
  let ?c3 = "hasExtension s2 VK_KHR_TIMELINE_SEMAPHORE_EXTENSION_NAME"
  let ?L3 = "?L2 @ (if ?c3 then [B_TimelineSemaphoreFeatures] else [])"
  have n2: "B_TimelineSemaphoreFeatures \<notin> set (B_Features2 # ?L2)"
    using assms(5) by auto
  from inv_add_if [OF i2 _ n2, of ?c3] assms(2)
  obtain s3 where r3: "(if ?c3 then ivkAddNext this B_Features2 B_TimelineSemaphoreFeatures s2
      else Some s2) = Some s3"
    and i3: "chainInv this s0 s3 ?L3 R"
    by auto
  have run: "assembleFeatureChain_extensions this s = Some s3"
    using r1 r2 r3 by (simp add: assembleFeatureChain_extensions_def)
  have e: "extensions_m s = extensions_m s0" "extensions_m s1 = extensions_m s0"
    "extensions_m s2 = extensions_m s0"
    using inv_same(2) [OF assms(1)] inv_same(2) [OF i1] inv_same(2) [OF i2] by auto
  have "?L3 = L @ extensionBlocks (extensions_m s0)"
    by (simp add: extensionBlocks_def hasExtension_def e)
  with i3 run show ?thesis by auto
qed

lemma assemble_inv:
  "\<exists>s'. assembleFeatureChain this config s0 = Some s' \<and>
     chainInv this s0 s' (linkedBlocks (version_m s0) config (extensions_m s0)) UNIV"
proof -
  from required_inv [OF inv_init]
  obtain s1 where r1: "assembleFeatureChain_required this (assembleFeatureChain_reset s0) = Some s1"
    and i1: "chainInv this s0 s1 (requiredBlocks (version_m s0)) resetFirst"
    by blast
  from configured_inv [OF i1, of config]
  obtain s2 where r2: "assembleFeatureChain_configured this config s1 = Some s2"
    and i2: "chainInv this s0 s2 (requiredBlocks (version_m s0) @ configuredBlocks config)
       (insert B_16BitStorageFeatures (insert B_DescriptorIndexingFeaturesEXT
          (insert B_BufferDeviceAddressFeaturesKHR resetFirst)))"
    by (auto simp: requiredBlocks_def)
  have u: "insert B_16BitStorageFeatures (insert B_DescriptorIndexingFeaturesEXT
          (insert B_BufferDeviceAddressFeaturesKHR resetFirst)) = UNIV"
  proof -
    have "k \<in> insert B_16BitStorageFeatures (insert B_DescriptorIndexingFeaturesEXT
          (insert B_BufferDeviceAddressFeaturesKHR resetFirst))" for k
      by (cases k) (simp_all add: resetFirst_def)
    then show ?thesis by blast
  qed
  from extensions_inv [OF i2 [unfolded u]]
  obtain s3 where r3: "assembleFeatureChain_extensions this s2 = Some s3"
    and i3: "chainInv this s0 s3
       ((requiredBlocks (version_m s0) @ configuredBlocks config) @ extensionBlocks (extensions_m s0)) UNIV"
    by (auto simp: requiredBlocks_def configuredBlocks_def)
  have "assembleFeatureChain this config s0 = Some s3"
    using r1 r2 r3 by (simp add: assembleFeatureChain_def)
  with i3 show ?thesis by (simp add: linkedBlocks_def)
qed

lemma assemble_final:
  "\<exists>s'. assembleFeatureChain this config s = Some s' \<and>
     isChain this s' (B_Features2 # linkedBlocks (version_m s) config (extensions_m s)) \<and>
     distinct (B_Features2 # linkedBlocks (version_m s) config (extensions_m s)) \<and>
     (\<forall>k. k \<notin> set (B_Features2 # linkedBlocks (version_m s) config (extensions_m s))
        \<longrightarrow> getNext s' k = None) \<and>
     clearNext s' = clearNext s"
  using assemble_inv [of this config s] by (auto simp: chainInv_def)

lemma isChain_links:
  "isChain this s ks \<Longrightarrow> k \<in> set ks \<Longrightarrow>
   getNext s k = None \<or> (\<exists>k'\<in>set (tl ks). getNext s k = Some (this, k'))"
  by (induction this s ks rule: isChain.induct) auto

lemma isChain_same_links:
  "isChain this s ks \<Longrightarrow> isChain this t ks \<Longrightarrow> distinct ks \<Longrightarrow> k \<in> set ks \<Longrightarrow>
   getNext s k = getNext t k"
  by (induction this s ks rule: isChain.induct) auto

lemma hasExtension_loop_iff:
  "hasExtension_loop ext exts \<longleftrightarrow> ext \<in> extensionName ` set exts"
  by (induction exts) auto

subsection \<open>The constructor in closed form\<close>

lemma clearNext_linkChain: "clearNext (linkChain this ks s) = clearNext s"
  by (induction this ks s rule: linkChain.induct) (simp_all add: clearNext_setNext)

lemma getNext_linkChain_other:
  "k \<notin> set ks \<Longrightarrow> getNext (linkChain this ks s) k = getNext s k"
  by (induction this ks s rule: linkChain.induct) (simp_all add: getNext_setNext)

lemma isChain_linkChain:
  "distinct ks \<Longrightarrow> ks \<noteq> [] \<Longrightarrow> getNext s (last ks) = None \<Longrightarrow>
   isChain this (linkChain this ks s) ks"
proof (induction this ks s rule: linkChain.induct)
  case (1 this k k' ks s)
  let ?s = "setNext k (Some (this, k')) s"
  from "1.prems" have "last (k' # ks) \<noteq> k" by auto
  with "1.prems" have "getNext ?s (last (k' # ks)) = None"
    by (simp add: getNext_setNext)
  with "1.IH" "1.prems" have "isChain this (linkChain this (k' # ks) ?s) (k' # ks)" by simp
  moreover from "1.prems" have "getNext (linkChain this (k' # ks) ?s) k = Some (this, k')"
    by (simp add: getNext_linkChain_other getNext_setNext)
  ultimately show ?case by simp
qed simp_all

lemma getNext_clearNext: "getNext (clearNext s) k = None"
  by (cases k) (simp_all add: clearNext_def allBlocks_def setNext.simps getNext.simps)

lemma clearNext_idem: "clearNext (clearNext s) = clearNext s"
  by (simp add: clearNext_def allBlocks_def setNext.simps)

lemma clearNext_members:
  "clearNext (VulkanFeatures_members version config) = VulkanFeatures_members version config"
  by (simp add: clearNext_def allBlocks_def setNext.simps VulkanFeatures_members_def)

lemma assemble_closed:
  "assembleFeatureChain this config s =
     Some (linkChain this (B_Features2 # linkedBlocks (version_m s) config (extensions_m s))
       (clearNext s))"
proof -
  let ?ks = "B_Features2 # linkedBlocks (version_m s) config (extensions_m s)"
  let ?c = "linkChain this ?ks (clearNext s)"
  from assemble_final [of this config s]
  obtain s' where run: "assembleFeatureChain this config s = Some s'"
    and ch: "isChain this s' ?ks"
    and d: "distinct ?ks"
    and rest: "\<forall>k. k \<notin> set ?ks \<longrightarrow> getNext s' k = None"
    and same: "clearNext s' = clearNext s"
    by blast
  have ch': "isChain this ?c ?ks"
    by (rule isChain_linkChain [OF d]) (simp_all add: getNext_clearNext)
  have "getNext s' k = getNext ?c k" for k
  proof (cases "k \<in> set ?ks")
    case True
    then show ?thesis by (rule isChain_same_links [OF ch ch' d])
  next
    case False
    with rest have "getNext s' k = None" by blast
    moreover have "getNext ?c k = None"
      using getNext_linkChain_other [OF False] getNext_clearNext by simp
    ultimately show ?thesis by (simp only:)
  qed
  moreover have "clearNext s' = clearNext ?c"
    using same by (simp only: clearNext_linkChain clearNext_idem)
  ultimately have "s' = ?c" by (rule state_ext [rotated])
  with run show ?thesis by (simp only:)
qed

lemma ctor_constructed:
  "VulkanFeatures_ctor this version config = Some (constructed this version config)"
proof -
  have vm: "version_m (VulkanFeatures_members version config) = version"
    "extensions_m (VulkanFeatures_members version config) = []"
    "config_m (VulkanFeatures_members version config) = config"
    by (simp_all add: VulkanFeatures_members_def)
  show ?thesis
    by (simp only: VulkanFeatures_ctor_def Let_def assemble_closed vm clearNext_members
        constructed_def)
qed

lemma required_closed:
  "assembleFeatureChain_required this (assembleFeatureChain_reset s) =
     Some (linkChain this (B_Features2 # requiredBlocks (version_m s))
       (assembleFeatureChain_reset s))"
proof -
  let ?r = "assembleFeatureChain_reset s"
  let ?ks = "B_Features2 # requiredBlocks (version_m s)"
  let ?c = "linkChain this ?ks ?r"
  have i0: "chainInv this s ?r [] resetFirst" by (rule inv_init)
  from required_inv [OF i0]
  obtain s' where run: "assembleFeatureChain_required this ?r = Some s'"
    and inv: "chainInv this s s' (requiredBlocks (version_m s)) resetFirst"
    by blast
  have r0: "getNext ?r k = None" if "k \<in> resetFirst" for k
    using i0 that by (cases "k = B_Features2") (auto simp: chainInv_def)
  have f0: "getNext ?r k = getNext s k" if "k \<notin> resetFirst" for k
    using i0 that by (auto simp: chainInv_def resetFirst_def)
  from inv have ch: "isChain this s' ?ks" and d: "distinct ?ks"
    by (auto simp: chainInv_def)
  have "last ?ks \<in> resetFirst"
    by (simp add: requiredBlocks_def resetFirst_def)
  then have ch': "isChain this ?c ?ks"
    by (intro isChain_linkChain [OF d]) (simp_all add: r0)
  have "getNext s' k = getNext ?c k" for k
  proof (cases "k \<in> set ?ks")
    case True
    then show ?thesis by (rule isChain_same_links [OF ch ch' d])
  next
    case False
    then have c: "getNext ?c k = getNext ?r k" by (rule getNext_linkChain_other)
    show ?thesis
    proof (cases "k \<in> resetFirst")
      case True
      with inv False have "getNext s' k = None" by (auto simp: chainInv_def)
      with c r0 [OF True] show ?thesis by simp
    next
      case nr: False
      with inv False have "getNext s' k = getNext s k" by (auto simp: chainInv_def)
      with c f0 [OF nr] show ?thesis by simp
    qed
  qed
  moreover have "clearNext s' = clearNext ?c"
    using inv i0 by (simp add: chainInv_def clearNext_linkChain)
  ultimately have "s' = ?c" by (rule state_ext [rotated])
  with run show ?thesis by (simp only:)
qed

subsection \<open>The report of \<open>checkSelectedFeatures\<close>\<close>

lemma ENABLE_VULKAN_FEATURE_append:
  "ENABLE_VULKAN_FEATURE r a sn fn v m =
     m @ (if r = VK_TRUE \<and> a = VK_FALSE then ''\<newline>   '' @ v @ '' '' @ sn @ ''.'' @ fn else [])"
  by (simp add: ENABLE_VULKAN_FEATURE_def)

lemma render_filter_Cons:
  "concat (map g (filter P (x # xs))) = (if P x then g x else []) @ concat (map g (filter P xs))"
  by simp

lemma missing_concat:
  "checkSelectedFeatures_missingFeatures R A =
     concat (map (\<lambda>c. ''\<newline>   '' @ reportEntry c) (missingChecks R A))"
proof (cases "enableDescriptorIndexing (config_m R)"; cases "enableBufferDeviceAddress (config_m R)")
  fix dummy :: nat
  show "enableDescriptorIndexing (config_m R) \<Longrightarrow> enableBufferDeviceAddress (config_m R) \<Longrightarrow> ?thesis"
    by (simp add: checkSelectedFeatures_missingFeatures_def ENABLE_FEATURE_1_1_def
      ENABLE_FEATURE_1_1_EXT_def ENABLE_FEATURE_1_2_EXT_def ENABLE_VULKAN_FEATURE_append
      missingChecks_def checks_def reportEntry_def Let_def render_filter_Cons
      del: filter.simps split del: if_split cong: if_cong)
  show "enableDescriptorIndexing (config_m R) \<Longrightarrow> \<not> enableBufferDeviceAddress (config_m R) \<Longrightarrow> ?thesis"
    by (simp add: checkSelectedFeatures_missingFeatures_def ENABLE_FEATURE_1_1_def
      ENABLE_FEATURE_1_1_EXT_def ENABLE_FEATURE_1_2_EXT_def ENABLE_VULKAN_FEATURE_append
      missingChecks_def checks_def reportEntry_def Let_def render_filter_Cons
      del: filter.simps split del: if_split cong: if_cong)
  show "\<not> enableDescriptorIndexing (config_m R) \<Longrightarrow> enableBufferDeviceAddress (config_m R) \<Longrightarrow> ?thesis"
    by (simp add: checkSelectedFeatures_missingFeatures_def ENABLE_FEATURE_1_1_def
      ENABLE_FEATURE_1_1_EXT_def ENABLE_FEATURE_1_2_EXT_def ENABLE_VULKAN_FEATURE_append
      missingChecks_def checks_def reportEntry_def Let_def render_filter_Cons
      del: filter.simps split del: if_split cong: if_cong)
  show "\<not> enableDescriptorIndexing (config_m R) \<Longrightarrow> \<not> enableBufferDeviceAddress (config_m R) \<Longrightarrow> ?thesis"
    by (simp add: checkSelectedFeatures_missingFeatures_def ENABLE_FEATURE_1_1_def
      ENABLE_FEATURE_1_1_EXT_def ENABLE_FEATURE_1_2_EXT_def ENABLE_VULKAN_FEATURE_append
      missingChecks_def checks_def reportEntry_def Let_def render_filter_Cons
      del: filter.simps split del: if_split cong: if_cong)
qed

lemma splitLines_nonempty: "splitLines cs \<noteq> []"
  by (induction cs) (auto split: list.splits)

lemma splitLines_prefix:
  "CHR 0x0A \<notin> set e \<Longrightarrow> splitLines (e @ cs) = (e @ hd (splitLines cs)) # tl (splitLines cs)"
proof (induction e)
  case Nil
  then show ?case using splitLines_nonempty [of cs] by (cases "splitLines cs") auto
next
  case (Cons c e)
  then show ?case by auto
qed

lemma splitLines_entries:
  "\<forall>e\<in>set es. CHR 0x0A \<notin> set e \<Longrightarrow>
   splitLines (concat (map (\<lambda>e. CHR 0x0A # e) es)) = [] # es"
proof (induction es)
  case Nil
  then show ?case by simp
next
  case (Cons e es)
  then have "splitLines (e @ concat (map (\<lambda>e. CHR 0x0A # e) es)) = (e @ []) # es"
    by (simp add: splitLines_prefix)
  then show ?case by simp
qed


lemma missingChecks_subset: "set (missingChecks R A) \<subseteq> set (checks (config_m R))"
  by (auto simp: missingChecks_def)

lemma entry_no_newline:
  "c \<in> set (checks config) \<Longrightarrow> CHR 0x0A \<notin> set (''   '' @ reportEntry c)"
  unfolding checks_def reportEntry_def by (auto split: if_splits)

lemma missing_lines:
  "splitLines (checkSelectedFeatures_missingFeatures R A) =
     [] # map (\<lambda>c. ''   '' @ reportEntry c) (missingChecks R A)"
proof -
  let ?es = "map (\<lambda>c. ''   '' @ reportEntry c) (missingChecks R A)"
  have "checkSelectedFeatures_missingFeatures R A = concat (map (\<lambda>e. CHR 0x0A # e) ?es)"
    by (simp add: missing_concat comp_def)
  moreover have "\<forall>e\<in>set ?es. CHR 0x0A \<notin> set e"
    using entry_no_newline missingChecks_subset [of R A] by fastforce
  ultimately show ?thesis by (simp only: splitLines_entries)
qed

lemma missing_empty_iff:
  "checkSelectedFeatures_missingFeatures R A = [] \<longleftrightarrow> missingChecks R A = []"
  by (cases "missingChecks R A") (auto simp: missing_concat)

lemma last_separator:
  assumes "c \<notin> set a" and "c \<notin> set b" and "x @ c # a = y @ c # b"
  shows "a = b"
proof -
  have "takeWhile (\<lambda>d. d \<noteq> c) (rev (x @ c # a)) = rev a"
    using assms(1) by (auto simp: takeWhile_append2 [where xs = "rev a"] takeWhile_tail)
  moreover have "takeWhile (\<lambda>d. d \<noteq> c) (rev (y @ c # b)) = rev b"
    using assms(2) by (auto simp: takeWhile_append2 [where xs = "rev b"] takeWhile_tail)
  ultimately have "rev a = rev b" using assms(3) by simp
  then show ?thesis by simp
qed

lemma fieldName_no_dot: "CHR ''.'' \<notin> set (fieldName f)"
  by (cases f) simp_all

lemma fieldName_inj_checked:
  "c \<in> set (checks config) \<Longrightarrow> fieldName f = fieldName (snd c) \<Longrightarrow> f = snd c"
  unfolding checks_def by (cases f; auto split: if_splits)

lemma entry_names_field:
  assumes "c \<in> set (checks config)" and "reportEntry (tag, f) = reportEntry c"
  shows "f = snd c"
proof -
  from assms(2) have "(tag @ '' '' @ structName f) @ CHR ''.'' # fieldName f =
      (fst c @ '' '' @ structName (snd c)) @ CHR ''.'' # fieldName (snd c)"
    by (simp add: reportEntry_def)
  then have "fieldName f = fieldName (snd c)"
    by (rule last_separator [OF fieldName_no_dot fieldName_no_dot])
  with assms(1) show ?thesis by (rule fieldName_inj_checked)
qed

subsection \<open>Feature fields, assignment, and the examples\<close>

lemma fieldValue_clearNext: "fieldValue (clearNext s) f = fieldValue s f"
  by (cases f) (simp_all add: clearNext_def allBlocks_def setNext.simps)

lemma same_fields: "clearNext s = clearNext t \<Longrightarrow> fieldValue s f = fieldValue t f"
  using fieldValue_clearNext [of s f] fieldValue_clearNext [of t f] by (simp del: fieldValue.simps)

lemma fieldValue_setNext: "fieldValue (setNext k p s) f = fieldValue s f"
  by (rule same_fields) (simp add: clearNext_setNext)

lemma fieldValue_constructed:
  "fieldValue (constructed this version config) f =
     fieldValue (VulkanFeatures_members version config) f"
  by (rule same_fields) (simp add: constructed_def clearNext_linkChain)

lemma fieldValue_members:
  "fieldValue (VulkanFeatures_members version config) f =
     (if f = F_synchronization2 \<or> f = F_timelineSemaphore then VK_TRUE else VK_FALSE)"
  by (cases f) (simp_all add: VulkanFeatures_members_def VK_FALSE_def)

lemma operator_assign_copies:
  assumes "h this = Some s" and "h other = Some t" and "this \<noteq> other"
    and "version_m s = version_m t"
    and "enableBufferDeviceAddress (config_m s) = enableBufferDeviceAddress (config_m t)"
    and "enableDescriptorIndexing (config_m s) = enableDescriptorIndexing (config_m t)"
  shows "\<exists>s'. operator_assign h this other = Some (h(this \<mapsto> s')) \<and>
           clearNext s' = clearNext (operator_assign_copy t s)"
proof -
  from assemble_final [of this "config_m s" "operator_assign_copy t s"]
  obtain s' where run: "assembleFeatureChain this (config_m s) (operator_assign_copy t s) = Some s'"
    and same: "clearNext s' = clearNext (operator_assign_copy t s)"
    by blast
  from assms run have "operator_assign h this other = Some (h(this \<mapsto> s'))"
    by (simp add: operator_assign_def)
  with same show ?thesis by blast
qed

lemmas example_defs =
  exampleRequested_def exampleAvailable_def exampleAvailable_lacking_def
  exampleAvailable_noSync2_def exampleAvailable_1_2_def exampleEnumerated_def
  exampleCopied_def exampleCopied_306_def exampleDestination_def exampleSource_def
  exampleAssigned_def exampleRequested_geometry_def
  exampleConfig_def desktopBuild_def appleBuild_def
  constructed_def linkedBlocks_def requiredBlocks_def configuredBlocks_def
  extensionBlocks_def VulkanFeatures_members_def enableDefaultFeatures1_1_def
  operator_assign_copy_def
  VK_API_VERSION_1_1_def VK_API_VERSION_1_2_def VK_TRUE_def VK_FALSE_def
  VK_EXT_INDEX_TYPE_UINT8_EXTENSION_NAME_def VK_KHR_SYNCHRONIZATION_2_EXTENSION_NAME_def
  VK_KHR_TIMELINE_SEMAPHORE_EXTENSION_NAME_def
  assembleFeatureChain_reset_def clearNext_def allBlocks_def
  setNext.simps getNext.simps Let_def

section \<open>The claims\<close>

subsection \<open>Chain assembly\<close>

text \<open>
  C3. From every object and for every configuration argument, \<open>assembleFeatureChain\<close>
  returns, and the chain read from \<open>VkPhysicalDeviceFeatures2_\<close> is the root followed by
  \<open>linkedBlocks\<close>: no structure twice; sampler-ycbcr, shader-draw-parameters, multiview
  and 16-bit storage always; ShaderFloat16Int8 exactly when the version is at least 1.2;
  buffer-device-address and descriptor-indexing exactly when their toggle is set in the
  configuration passed; index-type-uint8, synchronization2 and timeline-semaphore exactly
  when their extension name is, character for character, the name of an entry of
  \<open>extensions_\<close> (so never when that list is empty).
\<close>

theorem assembleFeatureChain_gating:
  "\<exists>s' ks. assembleFeatureChain this config s = Some s' \<and>
     pNextChain this s' (Some (this, B_Features2)) = Some (B_Features2 # ks) \<and>
     ks = linkedBlocks (version_m s) config (extensions_m s) \<and>
     distinct (B_Features2 # ks) \<and>
     B_SamplerYcbcrConversionFeatures \<in> set ks \<and>
     B_ShaderDrawParametersFeatures \<in> set ks \<and>
     B_MultiviewFeatures \<in> set ks \<and>
     B_16BitStorageFeatures \<in> set ks \<and>
     (B_ShaderFloat16Int8Features \<in> set ks \<longleftrightarrow> VK_API_VERSION_1_2 \<le> version_m s) \<and>
     (B_BufferDeviceAddressFeaturesKHR \<in> set ks \<longleftrightarrow> enableBufferDeviceAddress config) \<and>
     (B_DescriptorIndexingFeaturesEXT \<in> set ks \<longleftrightarrow> enableDescriptorIndexing config) \<and>
     (B_IndexTypeUint8Features \<in> set ks \<longleftrightarrow>
        VK_EXT_INDEX_TYPE_UINT8_EXTENSION_NAME \<in> extensionName ` set (extensions_m s)) \<and>
     (B_Synchronization2Features \<in> set ks \<longleftrightarrow>
        VK_KHR_SYNCHRONIZATION_2_EXTENSION_NAME \<in> extensionName ` set (extensions_m s)) \<and>
     (B_TimelineSemaphoreFeatures \<in> set ks \<longleftrightarrow>
        VK_KHR_TIMELINE_SEMAPHORE_EXTENSION_NAME \<in> extensionName ` set (extensions_m s))"
proof -
  let ?ks = "linkedBlocks (version_m s) config (extensions_m s)"
  from assemble_final [of this config s]
  obtain s' where run: "assembleFeatureChain this config s = Some s'"
    and ch: "isChain this s' (B_Features2 # ?ks)"
    and d: "distinct (B_Features2 # ?ks)"
    by blast
  have rd: "pNextChain this s' (Some (this, B_Features2)) = Some (B_Features2 # ?ks)"
    by (rule chain_read [OF ch])
  have mem: "B_SamplerYcbcrConversionFeatures \<in> set ?ks"
    "B_ShaderDrawParametersFeatures \<in> set ?ks"
    "B_MultiviewFeatures \<in> set ?ks"
    "B_16BitStorageFeatures \<in> set ?ks"
    "B_ShaderFloat16Int8Features \<in> set ?ks \<longleftrightarrow> VK_API_VERSION_1_2 \<le> version_m s"
    "B_BufferDeviceAddressFeaturesKHR \<in> set ?ks \<longleftrightarrow> enableBufferDeviceAddress config"
    "B_DescriptorIndexingFeaturesEXT \<in> set ?ks \<longleftrightarrow> enableDescriptorIndexing config"
    "B_IndexTypeUint8Features \<in> set ?ks \<longleftrightarrow>
        VK_EXT_INDEX_TYPE_UINT8_EXTENSION_NAME \<in> extensionName ` set (extensions_m s)"
    "B_Synchronization2Features \<in> set ?ks \<longleftrightarrow>
        VK_KHR_SYNCHRONIZATION_2_EXTENSION_NAME \<in> extensionName ` set (extensions_m s)"
    "B_TimelineSemaphoreFeatures \<in> set ?ks \<longleftrightarrow>
        VK_KHR_TIMELINE_SEMAPHORE_EXTENSION_NAME \<in> extensionName ` set (extensions_m s)"
    by (auto simp: linkedBlocks_def requiredBlocks_def configuredBlocks_def
          extensionBlocks_def hasExtension_loop_iff)
  from run rd d mem show ?thesis by blast
qed

text \<open>
  The device of \<open>exampleEnumerated\<close>, version 1.2 with buffer device address enabled:
  synchronization2 is linked, and index-type-uint8 is not, its name being advertised in
  lower case only.
\<close>

theorem assembleFeatureChain_gating_witness:
  "\<exists>s'. assembleFeatureChain 2 (exampleConfig\<lparr>enableBufferDeviceAddress := True\<rparr>)
            exampleEnumerated = Some s' \<and>
     pNextChain 2 s' (Some (2, B_Features2)) =
       Some [B_Features2, B_SamplerYcbcrConversionFeatures, B_ShaderDrawParametersFeatures,
             B_MultiviewFeatures, B_ShaderFloat16Int8Features,
             B_BufferDeviceAddressFeaturesKHR, B_16BitStorageFeatures,
             B_Synchronization2Features]"
proof -
  have l: "linkedBlocks (version_m exampleEnumerated)
        (exampleConfig\<lparr>enableBufferDeviceAddress := True\<rparr>) (extensions_m exampleEnumerated) =
      [B_SamplerYcbcrConversionFeatures, B_ShaderDrawParametersFeatures,
       B_MultiviewFeatures, B_ShaderFloat16Int8Features,
       B_BufferDeviceAddressFeaturesKHR, B_16BitStorageFeatures, B_Synchronization2Features]"
    by (simp add: example_defs)
  from assembleFeatureChain_gating
    [of 2 "exampleConfig\<lparr>enableBufferDeviceAddress := True\<rparr>" exampleEnumerated]
  show ?thesis unfolding l by blast
qed

text \<open>
  C7. \<open>assembleFeatureChain\<close> is idempotent: from every object it returns an object on
  which a second run, with the same configuration argument, returns that same object;
  the version and the extension list are not written, and the chain read from the root
  is the same list of structures in the same order.
\<close>

theorem assembleFeatureChain_idempotent:
  "\<exists>s'. assembleFeatureChain this config s = Some s' \<and>
     assembleFeatureChain this config s' = Some s' \<and>
     version_m s' = version_m s \<and> extensions_m s' = extensions_m s \<and>
     pNextChain this s' (Some (this, B_Features2)) =
       Some (B_Features2 # linkedBlocks (version_m s) config (extensions_m s))"
proof -
  let ?ks = "linkedBlocks (version_m s) config (extensions_m s)"
  from assemble_final [of this config s]
  obtain s' where run: "assembleFeatureChain this config s = Some s'"
    and ch: "isChain this s' (B_Features2 # ?ks)"
    and d: "distinct (B_Features2 # ?ks)"
    and rest: "\<forall>k. k \<notin> set (B_Features2 # ?ks) \<longrightarrow> getNext s' k = None"
    and same: "clearNext s' = clearNext s"
    by blast
  have v: "version_m s' = version_m s" and e: "extensions_m s' = extensions_m s"
    using same_data_frame [OF same] by auto
  have "\<exists>s''. assembleFeatureChain this config s' = Some s'' \<and>
     isChain this s'' (B_Features2 # ?ks) \<and>
     (\<forall>k. k \<notin> set (B_Features2 # ?ks) \<longrightarrow> getNext s'' k = None) \<and>
     clearNext s'' = clearNext s'"
    using assemble_final [of this config s'] by (simp only: v e) blast
  then obtain s'' where run': "assembleFeatureChain this config s' = Some s''"
    and ch': "isChain this s'' (B_Features2 # ?ks)"
    and rest': "\<forall>k. k \<notin> set (B_Features2 # ?ks) \<longrightarrow> getNext s'' k = None"
    and same': "clearNext s'' = clearNext s'"
    by blast
  have "getNext s'' k = getNext s' k" for k
  proof (cases "k \<in> set (B_Features2 # ?ks)")
    case True
    then show ?thesis by (rule isChain_same_links [OF ch' ch d])
  next
    case False
    from False rest have "getNext s' k = None" by blast
    moreover from False rest' have "getNext s'' k = None" by blast
    ultimately show ?thesis by (simp only:)
  qed
  then have "s'' = s'" by (rule state_ext [OF same'])
  with run' have "assembleFeatureChain this config s' = Some s'" by (simp only:)
  with run v e chain_read [OF ch] show ?thesis by blast
qed

text \<open>Reassembling the object of \<open>exampleCopied\<close> twice.\<close>

theorem assembleFeatureChain_idempotent_witness:
  "\<exists>s'. assembleFeatureChain 1 exampleConfig exampleCopied = Some s' \<and>
     assembleFeatureChain 1 exampleConfig s' = Some s'"
  using assembleFeatureChain_idempotent [of 1 exampleConfig exampleCopied] by blast

text \<open>
  C6, as the code has it. The claim's order does not hold: the links of the
  buffer-device-address, descriptor-indexing and 16-bit-storage structures are cleared
  only after the first structures have been linked (lines 307, 311 and 315 follow lines
  301 to 306). After lines 291 to 306 on the object of \<open>exampleCopied\<close> the root is
  linked to the sampler-ycbcr structure while the buffer-device-address structure still
  points into the object at address 9.
\<close>

theorem assembleFeatureChain_reset_order_counterexample:
  "assembleFeatureChain_required 1 (assembleFeatureChain_reset exampleCopied) =
     Some exampleCopied_306 \<and>
   getNext exampleCopied_306 B_Features2 = Some (1, B_SamplerYcbcrConversionFeatures) \<and>
   getNext exampleCopied_306 B_BufferDeviceAddressFeaturesKHR =
     Some (9, B_16BitStorageFeatures)"
proof -
  have v: "requiredBlocks (version_m exampleCopied) =
      [B_SamplerYcbcrConversionFeatures, B_ShaderDrawParametersFeatures, B_MultiviewFeatures]"
    by (simp add: example_defs)
  have "assembleFeatureChain_required 1 (assembleFeatureChain_reset exampleCopied) =
     Some exampleCopied_306"
    by (simp only: required_closed v exampleCopied_306_def)
  moreover have "getNext exampleCopied_306 B_Features2 =
      Some (1, B_SamplerYcbcrConversionFeatures)"
    "getNext exampleCopied_306 B_BufferDeviceAddressFeaturesKHR =
      Some (9, B_16BitStorageFeatures)"
    by (simp_all add: example_defs)
  ultimately show ?thesis by blast
qed

text \<open>
  C6, amended. By the time \<open>assembleFeatureChain\<close> returns, every structure's link has
  been cleared or set anew, whatever it was before: the chain read from the root is the
  root followed by \<open>linkedBlocks\<close>; a structure outside that chain has a null link; and
  every link that is not null points to a structure of this object that belongs to
  that chain.
\<close>

theorem assembleFeatureChain_no_stale_links:
  "\<exists>s'. assembleFeatureChain this config s = Some s' \<and>
     pNextChain this s' (Some (this, B_Features2)) =
       Some (B_Features2 # linkedBlocks (version_m s) config (extensions_m s)) \<and>
     (\<forall>k. k \<notin> set (B_Features2 # linkedBlocks (version_m s) config (extensions_m s))
        \<longrightarrow> getNext s' k = None) \<and>
     (\<forall>k. getNext s' k = None \<or>
        (\<exists>k'\<in>set (linkedBlocks (version_m s) config (extensions_m s)).
           getNext s' k = Some (this, k')))"
proof -
  let ?ks = "linkedBlocks (version_m s) config (extensions_m s)"
  from assemble_final [of this config s]
  obtain s' where run: "assembleFeatureChain this config s = Some s'"
    and ch: "isChain this s' (B_Features2 # ?ks)"
    and rest: "\<forall>k. k \<notin> set (B_Features2 # ?ks) \<longrightarrow> getNext s' k = None"
    by blast
  have "getNext s' k = None \<or> (\<exists>k'\<in>set ?ks. getNext s' k = Some (this, k'))" for k
  proof (cases "k \<in> set (B_Features2 # ?ks)")
    case True
    from isChain_links [OF ch True] show ?thesis by simp
  next
    case False
    with rest show ?thesis by blast
  qed
  with run rest chain_read [OF ch] show ?thesis by blast
qed

text \<open>
  The object of \<open>exampleCopied\<close>, reassembled with a configuration that has buffer
  device address disabled: the link of that structure pointed into the object at address
  9, the structure is not linked, and its link is null afterwards.
\<close>

theorem assembleFeatureChain_no_stale_links_witness:
  "getNext exampleCopied B_BufferDeviceAddressFeaturesKHR = Some (9, B_16BitStorageFeatures) \<and>
   B_BufferDeviceAddressFeaturesKHR \<notin>
     set (B_Features2 #
       linkedBlocks (version_m exampleCopied) exampleConfig (extensions_m exampleCopied)) \<and>
   (\<exists>s'. assembleFeatureChain 1 exampleConfig exampleCopied = Some s' \<and>
      getNext s' B_BufferDeviceAddressFeaturesKHR = None)"
proof -
  have a: "getNext exampleCopied B_BufferDeviceAddressFeaturesKHR =
      Some (9, B_16BitStorageFeatures)"
    by (simp add: example_defs)
  have b: "B_BufferDeviceAddressFeaturesKHR \<notin>
     set (B_Features2 #
       linkedBlocks (version_m exampleCopied) exampleConfig (extensions_m exampleCopied))"
    by (simp add: example_defs)
  from assembleFeatureChain_no_stale_links [of 1 exampleConfig exampleCopied] b
  have "\<exists>s'. assembleFeatureChain 1 exampleConfig exampleCopied = Some s' \<and>
      getNext s' B_BufferDeviceAddressFeaturesKHR = None"
    by blast
  with a b show ?thesis by blast
qed

subsection \<open>Construction and assignment\<close>

text \<open>
  C10. The constructor returns, and in the object it leaves every feature field is
  \<open>VK_FALSE\<close> but \<open>synchronization2\<close> and \<open>timelineSemaphore\<close>, which are \<open>VK_TRUE\<close>: a
  requested set that is only constructed already asks for these two.
\<close>

theorem VulkanFeatures_ctor_fields:
  "\<exists>s. VulkanFeatures_ctor this version config = Some s \<and>
     (\<forall>f. fieldValue s f =
        (if f = F_synchronization2 \<or> f = F_timelineSemaphore then VK_TRUE else VK_FALSE))"
  using ctor_constructed [of this version config]
  by (simp add: fieldValue_constructed fieldValue_members del: fieldValue.simps)

text \<open>The requested set of Vulkan 1.1 at address 1, before its defaults are applied.\<close>

theorem VulkanFeatures_ctor_fields_witness:
  "\<exists>s. VulkanFeatures_ctor 1 VK_API_VERSION_1_1 exampleConfig = Some s \<and>
     fieldValue s F_synchronization2 = VK_TRUE \<and> fieldValue s F_timelineSemaphore = VK_TRUE \<and>
     fieldValue s F_multiview = VK_FALSE \<and> fieldValue s F_dualSrcBlend = VK_FALSE"
proof -
  from VulkanFeatures_ctor_fields [of 1 VK_API_VERSION_1_1 exampleConfig]
  obtain s where "VulkanFeatures_ctor 1 VK_API_VERSION_1_1 exampleConfig = Some s"
    and f: "\<forall>f. fieldValue s f =
        (if f = F_synchronization2 \<or> f = F_timelineSemaphore then VK_TRUE else VK_FALSE)"
    by blast
  moreover from f have "fieldValue s F_synchronization2 = VK_TRUE"
    "fieldValue s F_timelineSemaphore = VK_TRUE" "fieldValue s F_multiview = VK_FALSE"
    "fieldValue s F_dualSrcBlend = VK_FALSE"
    by (simp_all del: fieldValue.simps)
  ultimately show ?thesis by blast
qed

text \<open>
  C2, as the code has it. A differing toggle does not stop the assignment unless it is
  \<open>enableBufferDeviceAddress\<close> or \<open>enableDescriptorIndexing\<close>: in \<open>exampleStore\<close> the two
  objects differ in \<open>enableShaderInt16\<close>, and the assignment gives the destination the
  source's \<open>shaderInt16\<close>.
\<close>

theorem operator_assign_toggle_counterexample:
  "exampleStore 1 = Some exampleDestination \<and> exampleStore 2 = Some exampleSource \<and>
   version_m exampleDestination = version_m exampleSource \<and>
   enableShaderInt16 (config_m exampleDestination) \<noteq>
     enableShaderInt16 (config_m exampleSource) \<and>
   operator_assign exampleStore 1 2 = Some (exampleStore(1 \<mapsto> exampleAssigned)) \<and>
   operator_assign exampleStore 1 2 \<noteq> Some exampleStore \<and>
   fieldValue exampleDestination F_shaderInt16 = VK_FALSE \<and>
   fieldValue exampleAssigned F_shaderInt16 = VK_TRUE"
proof -
  have hd: "exampleStore 1 = Some exampleDestination"
    and hs: "exampleStore 2 = Some exampleSource"
    by (simp_all add: exampleStore_def)
  have v: "version_m exampleDestination = version_m exampleSource"
    and c1: "enableBufferDeviceAddress (config_m exampleDestination) =
      enableBufferDeviceAddress (config_m exampleSource)"
    and c2: "enableDescriptorIndexing (config_m exampleDestination) =
      enableDescriptorIndexing (config_m exampleSource)"
    and c3: "enableShaderInt16 (config_m exampleDestination) \<noteq>
      enableShaderInt16 (config_m exampleSource)"
    by (simp_all add: example_defs)
  have l: "linkedBlocks (version_m (operator_assign_copy exampleSource exampleDestination))
      (config_m exampleDestination)
      (extensions_m (operator_assign_copy exampleSource exampleDestination)) =
      [B_SamplerYcbcrConversionFeatures, B_ShaderDrawParametersFeatures,
       B_MultiviewFeatures, B_16BitStorageFeatures]"
    by (simp add: example_defs)
  have a: "assembleFeatureChain 1 (config_m exampleDestination)
      (operator_assign_copy exampleSource exampleDestination) = Some exampleAssigned"
    by (simp only: assemble_closed l exampleAssigned_def)
  from hd hs v c1 c2 a
  have run: "operator_assign exampleStore 1 2 = Some (exampleStore(1 \<mapsto> exampleAssigned))"
    by (simp add: operator_assign_def)
  have before: "fieldValue exampleDestination F_shaderInt16 = VK_FALSE"
    by (simp add: exampleDestination_def fieldValue_constructed fieldValue_members
        del: fieldValue.simps)
  have "fieldValue exampleAssigned F_shaderInt16 =
      fieldValue (operator_assign_copy exampleSource exampleDestination) F_shaderInt16"
    by (rule same_fields) (simp only: exampleAssigned_def clearNext_linkChain clearNext_idem)
  also have "\<dots> = VK_TRUE" by (simp add: example_defs)
  finally have after: "fieldValue exampleAssigned F_shaderInt16 = VK_TRUE" .
  have "exampleStore(1 \<mapsto> exampleAssigned) \<noteq> exampleStore"
  proof
    assume "exampleStore(1 \<mapsto> exampleAssigned) = exampleStore"
    then have "(exampleStore(1 \<mapsto> exampleAssigned)) 1 = exampleStore 1" by (simp only:)
    with hd have "exampleAssigned = exampleDestination" by simp
    with before after show False by (simp add: VK_TRUE_def VK_FALSE_def del: fieldValue.simps)
  qed
  with run have changed: "operator_assign exampleStore 1 2 \<noteq> Some exampleStore" by simp
  from hd hs v c3 run changed before after show ?thesis by blast
qed

text \<open>
  C2, amended. When the two objects differ in API version, in
  \<open>enableBufferDeviceAddress\<close> or in \<open>enableDescriptorIndexing\<close>, \<open>*this = other\<close> leaves the
  store as it was: neither object is written.
\<close>

theorem operator_assign_guard:
  assumes "h this = Some s" and "h other = Some t"
    and "version_m s \<noteq> version_m t \<or>
         enableBufferDeviceAddress (config_m s) \<noteq> enableBufferDeviceAddress (config_m t) \<or>
         enableDescriptorIndexing (config_m s) \<noteq> enableDescriptorIndexing (config_m t)"
  shows "operator_assign h this other = Some h"
  using assms by (auto simp: operator_assign_def)

text \<open>The two objects of \<open>exampleStore_versions\<close>, of versions 1.1 and 1.2.\<close>

theorem operator_assign_guard_witness:
  "\<exists>d s. exampleStore_versions 1 = Some d \<and> exampleStore_versions 2 = Some s \<and>
     version_m d \<noteq> version_m s \<and>
     operator_assign exampleStore_versions 1 2 = Some exampleStore_versions"
proof -
  let ?d = "exampleDestination"
  let ?s = "enableDefaultFeatures1_1 desktopBuild (constructed 2 VK_API_VERSION_1_2 exampleConfig)"
  have hd: "exampleStore_versions 1 = Some ?d" and hs: "exampleStore_versions 2 = Some ?s"
    by (simp_all add: exampleStore_versions_def)
  have v: "version_m ?d \<noteq> version_m ?s"
    by (simp add: example_defs)
  from operator_assign_guard [OF hd hs] v
  have "operator_assign exampleStore_versions 1 2 = Some exampleStore_versions" by blast
  with hd hs v show ?thesis by blast
qed

subsection \<open>Negotiation\<close>

text \<open>
  C1, as the code has it. \<open>checkSelectedFeatures\<close> compares the fields of \<open>checks\<close> only.
  The requested set of \<open>exampleRequested\<close> has \<open>synchronization2\<close> set, the available
  set of \<open>exampleAvailable_noSync2\<close> has it clear and is of the same version: the call
  succeeds, with an empty report and no diagnostic. The same holds for
  \<open>multiviewGeometryShader\<close>, a field of a structure that is in every chain: requested by
  \<open>exampleRequested_geometry\<close> and clear in \<open>exampleAvailable\<close>, it stops nothing and is
  not reported. And in a build for an Apple platform the call succeeds although
  \<open>dualSrcBlend\<close>, a field that is checked, is requested and not available.
\<close>

theorem checkSelectedFeatures_unchecked_field_counterexample:
  "version_m exampleAvailable_noSync2 = version_m exampleRequested \<and>
   fieldValue exampleRequested F_synchronization2 = VK_TRUE \<and>
   fieldValue exampleAvailable_noSync2 F_synchronization2 = VK_FALSE \<and>
   checkSelectedFeatures_missingFeatures exampleRequested exampleAvailable_noSync2 = [] \<and>
   checkSelectedFeatures desktopBuild exampleRequested exampleAvailable_noSync2 =
     Inr \<lparr>diagnostics = [], returned = \<lparr>code = Ok, message = []\<rparr>\<rparr> \<and>
   version_m exampleAvailable = version_m exampleRequested_geometry \<and>
   fieldValue exampleRequested_geometry F_multiviewGeometryShader = VK_TRUE \<and>
   fieldValue exampleAvailable F_multiviewGeometryShader = VK_FALSE \<and>
   checkSelectedFeatures_missingFeatures exampleRequested_geometry exampleAvailable = [] \<and>
   checkSelectedFeatures desktopBuild exampleRequested_geometry exampleAvailable =
     Inr \<lparr>diagnostics = [], returned = \<lparr>code = Ok, message = []\<rparr>\<rparr> \<and>
   version_m exampleAvailable_lacking = version_m exampleRequested \<and>
   fieldValue exampleRequested F_dualSrcBlend = VK_TRUE \<and>
   fieldValue exampleAvailable_lacking F_dualSrcBlend = VK_FALSE \<and>
   checkSelectedFeatures appleBuild exampleRequested exampleAvailable_lacking =
     Inr \<lparr>diagnostics =
            [LogInfo ''Missing Vulkan features: \<newline>   1.1 VkPhysicalDeviceFeatures2_.features.dualSrcBlend\<newline>   1.1 EXT VkPhysicalDeviceMultiviewFeatures_.multiview\<newline>''],
          returned = \<lparr>code = Ok, message = []\<rparr>\<rparr>"
proof -
  have m': "missingChecks exampleRequested_geometry exampleAvailable = []"
    by (simp add: missingChecks_def checks_def example_defs)
  then have r': "checkSelectedFeatures_missingFeatures exampleRequested_geometry exampleAvailable = []"
    by (simp only: missing_empty_iff)
  have v': "version_m exampleAvailable = version_m exampleRequested_geometry"
    by (simp add: example_defs)
  have f': "fieldValue exampleRequested_geometry F_multiviewGeometryShader = VK_TRUE"
    "fieldValue exampleAvailable F_multiviewGeometryShader = VK_FALSE"
    by (simp_all add: example_defs)
  from v' r' have o': "checkSelectedFeatures desktopBuild exampleRequested_geometry exampleAvailable =
     Inr \<lparr>diagnostics = [], returned = \<lparr>code = Ok, message = []\<rparr>\<rparr>"
    by (simp add: checkSelectedFeatures_def IGL_DEBUG_ASSERT_def)
  have m: "missingChecks exampleRequested exampleAvailable_noSync2 = []"
    by (simp add: missingChecks_def checks_def example_defs)
  then have r: "checkSelectedFeatures_missingFeatures exampleRequested exampleAvailable_noSync2 = []"
    by (simp only: missing_empty_iff)
  have v: "version_m exampleAvailable_noSync2 = version_m exampleRequested"
    by (simp add: example_defs)
  have f: "fieldValue exampleRequested F_synchronization2 = VK_TRUE"
    "fieldValue exampleAvailable_noSync2 F_synchronization2 = VK_FALSE"
    by (simp_all add: example_defs)
  from v r have o: "checkSelectedFeatures desktopBuild exampleRequested exampleAvailable_noSync2 =
     Inr \<lparr>diagnostics = [], returned = \<lparr>code = Ok, message = []\<rparr>\<rparr>"
    by (simp add: checkSelectedFeatures_def IGL_DEBUG_ASSERT_def)
  have m'': "missingChecks exampleRequested exampleAvailable_lacking =
      [(''1.1'', F_dualSrcBlend), (''1.1 EXT'', F_multiview)]"
    by (simp add: missingChecks_def checks_def example_defs)
  have r'': "checkSelectedFeatures_missingFeatures exampleRequested exampleAvailable_lacking =
     ''\<newline>   1.1 VkPhysicalDeviceFeatures2_.features.dualSrcBlend\<newline>   1.1 EXT VkPhysicalDeviceMultiviewFeatures_.multiview''"
    by (simp add: missing_concat m'' reportEntry_def)
  have v'': "version_m exampleAvailable_lacking = version_m exampleRequested"
    by (simp add: example_defs)
  have f'': "fieldValue exampleRequested F_dualSrcBlend = VK_TRUE"
    "fieldValue exampleAvailable_lacking F_dualSrcBlend = VK_FALSE"
    by (simp_all add: example_defs)
  have o'': "checkSelectedFeatures appleBuild exampleRequested exampleAvailable_lacking =
     Inr \<lparr>diagnostics =
            [LogInfo ''Missing Vulkan features: \<newline>   1.1 VkPhysicalDeviceFeatures2_.features.dualSrcBlend\<newline>   1.1 EXT VkPhysicalDeviceMultiviewFeatures_.multiview\<newline>''],
          returned = \<lparr>code = Ok, message = []\<rparr>\<rparr>"
    by (simp add: checkSelectedFeatures_def IGL_DEBUG_ASSERT_def v'' r'' appleBuild_def)
  from v f r o v' f' r' o' v'' f'' o'' show ?thesis by blast
qed

text \<open>
  C1, amended. For a requested set \<open>R\<close> and an available set \<open>A\<close> of equal version,
  \<open>checkSelectedFeatures\<close> returns \<open>Ok\<close> exactly when the build is for an Apple platform or
  no field of \<open>checks\<close> (the six core fields, the eight descriptor-indexing fields when
  \<open>R\<close> has \<open>enableDescriptorIndexing\<close>, \<open>storageBuffer16BitAccess\<close>, \<open>bufferDeviceAddress\<close>
  when \<open>R\<close> has \<open>enableBufferDeviceAddress\<close>, \<open>multiview\<close>, \<open>samplerYcbcrConversion\<close>,
  \<open>shaderDrawParameters\<close>, \<open>shaderFloat16\<close>) is \<open>VK_TRUE\<close> in \<open>R\<close> and \<open>VK_FALSE\<close> in \<open>A\<close>; and
  in every build each such field that is \<open>VK_TRUE\<close> in \<open>R\<close> and \<open>VK_FALSE\<close> in \<open>A\<close> has its
  line in the report.
\<close>

theorem checkSelectedFeatures_checked_fields:
  assumes "version_m A = version_m R"
  shows "((\<exists>out. checkSelectedFeatures b R A = Inr out \<and> code (returned out) = Ok) \<longleftrightarrow>
            (IGL_PLATFORM_APPLE b \<or>
             (\<forall>c\<in>set (checks (config_m R)).
                \<not> (fieldValue R (snd c) = VK_TRUE \<and> fieldValue A (snd c) = VK_FALSE)))) \<and>
         (\<forall>c\<in>set (checks (config_m R)).
            fieldValue R (snd c) = VK_TRUE \<and> fieldValue A (snd c) = VK_FALSE \<longrightarrow>
            ''   '' @ reportEntry c \<in> set (splitLines (checkSelectedFeatures_missingFeatures R A)))"
proof -
  have e: "checkSelectedFeatures_missingFeatures R A = [] \<longleftrightarrow>
      (\<forall>c\<in>set (checks (config_m R)).
         \<not> (fieldValue R (snd c) = VK_TRUE \<and> fieldValue A (snd c) = VK_FALSE))"
    unfolding missing_empty_iff missingChecks_def filter_empty_conv by (rule refl)
  have "(\<exists>out. checkSelectedFeatures b R A = Inr out \<and> code (returned out) = Ok) \<longleftrightarrow>
      (IGL_PLATFORM_APPLE b \<or> checkSelectedFeatures_missingFeatures R A = [])"
    using assms by (auto simp: checkSelectedFeatures_def IGL_DEBUG_ASSERT_def Let_def)
  with e have first: "(\<exists>out. checkSelectedFeatures b R A = Inr out \<and> code (returned out) = Ok) \<longleftrightarrow>
      (IGL_PLATFORM_APPLE b \<or>
       (\<forall>c\<in>set (checks (config_m R)).
         \<not> (fieldValue R (snd c) = VK_TRUE \<and> fieldValue A (snd c) = VK_FALSE)))"
    by (simp only:)
  have second: "\<forall>c\<in>set (checks (config_m R)).
      fieldValue R (snd c) = VK_TRUE \<and> fieldValue A (snd c) = VK_FALSE \<longrightarrow>
      ''   '' @ reportEntry c \<in> set (splitLines (checkSelectedFeatures_missingFeatures R A))"
    unfolding missing_lines missingChecks_def by auto
  from first second show ?thesis by (rule conjI)
qed

text \<open>
  The requested set of \<open>exampleRequested\<close> against a device without dual-source
  blending and multiview, in a desktop build: the call does not return \<open>Ok\<close> and the line
  of \<open>dualSrcBlend\<close> is in the report; against \<open>exampleAvailable\<close> the call returns \<open>Ok\<close>.
\<close>

theorem checkSelectedFeatures_checked_fields_witness:
  "version_m exampleAvailable_lacking = version_m exampleRequested \<and>
   \<not> IGL_PLATFORM_APPLE desktopBuild \<and>
   fieldValue exampleRequested F_dualSrcBlend = VK_TRUE \<and>
   fieldValue exampleAvailable_lacking F_dualSrcBlend = VK_FALSE \<and>
   \<not> (\<exists>out. checkSelectedFeatures desktopBuild exampleRequested exampleAvailable_lacking = Inr out \<and>
          code (returned out) = Ok) \<and>
   ''   1.1 VkPhysicalDeviceFeatures2_.features.dualSrcBlend'' \<in>
     set (splitLines
       (checkSelectedFeatures_missingFeatures exampleRequested exampleAvailable_lacking)) \<and>
   (\<exists>out. checkSelectedFeatures desktopBuild exampleRequested exampleAvailable = Inr out \<and>
      code (returned out) = Ok)"
proof -
  have v: "version_m exampleAvailable_lacking = version_m exampleRequested"
    "version_m exampleAvailable = version_m exampleRequested"
    and b: "\<not> IGL_PLATFORM_APPLE desktopBuild"
    by (simp_all add: example_defs)
  have c: "(''1.1'', F_dualSrcBlend) \<in> set (checks (config_m exampleRequested))"
    by (simp add: checks_def)
  have f: "fieldValue exampleRequested F_dualSrcBlend = VK_TRUE"
    "fieldValue exampleAvailable_lacking F_dualSrcBlend = VK_FALSE"
    by (simp_all add: example_defs)
  have ok: "\<forall>c\<in>set (checks (config_m exampleRequested)).
      \<not> (fieldValue exampleRequested (snd c) = VK_TRUE \<and>
         fieldValue exampleAvailable (snd c) = VK_FALSE)"
    by (simp add: checks_def example_defs)
  note t1 = checkSelectedFeatures_checked_fields [OF v(1), of desktopBuild]
    and t2 = checkSelectedFeatures_checked_fields [OF v(2), of desktopBuild]
  from t1 b c f have "\<not> (\<exists>out. checkSelectedFeatures desktopBuild exampleRequested
        exampleAvailable_lacking = Inr out \<and> code (returned out) = Ok)"
    by (metis snd_conv)
  moreover from t1 c f have "''   '' @ reportEntry (''1.1'', F_dualSrcBlend) \<in>
     set (splitLines
       (checkSelectedFeatures_missingFeatures exampleRequested exampleAvailable_lacking))"
    by (metis snd_conv)
  then have "''   1.1 VkPhysicalDeviceFeatures2_.features.dualSrcBlend'' \<in>
     set (splitLines
       (checkSelectedFeatures_missingFeatures exampleRequested exampleAvailable_lacking))"
    by (simp add: reportEntry_def)
  moreover from t2 ok have "\<exists>out. checkSelectedFeatures desktopBuild exampleRequested
      exampleAvailable = Inr out \<and> code (returned out) = Ok"
    by blast
  ultimately show ?thesis using v b f by blast
qed

text \<open>
  C4. When the two versions differ, the call ends in the failed assertion of line 181:
  it has no outcome, so neither a \<open>Result\<close> nor a report, in any build.
\<close>

theorem checkSelectedFeatures_version_mismatch:
  assumes "version_m A \<noteq> version_m R"
  shows "checkSelectedFeatures b R A =
     Inl (AssertionFailed
       ''The API versions don't match between the requested features and the ones that are available'')"
  using assms by (simp add: checkSelectedFeatures_def IGL_DEBUG_ASSERT_def)

text \<open>Scenario D of the spec: a requested set of version 1.1, an available set of 1.2.\<close>

theorem checkSelectedFeatures_version_mismatch_witness:
  "version_m exampleRequested = VK_API_VERSION_1_1 \<and>
   version_m exampleAvailable_1_2 = VK_API_VERSION_1_2 \<and>
   version_m exampleAvailable_1_2 \<noteq> version_m exampleRequested \<and>
   (\<exists>failure. checkSelectedFeatures desktopBuild exampleRequested exampleAvailable_1_2 =
      Inl failure)"
proof -
  have v: "version_m exampleRequested = VK_API_VERSION_1_1"
    "version_m exampleAvailable_1_2 = VK_API_VERSION_1_2"
    "version_m exampleAvailable_1_2 \<noteq> version_m exampleRequested"
    by (simp_all add: example_defs)
  from checkSelectedFeatures_version_mismatch [OF v(3), of desktopBuild] v
  show ?thesis by blast
qed

text \<open>
  C5. With equal versions and a report that is not empty, the outcome depends on
  \<open>IGL_PLATFORM_APPLE\<close> alone: without it the abort request is raised and the call
  returns \<open>RuntimeError\<close>; with it the report is logged and the call returns \<open>Ok\<close>.
\<close>

theorem checkSelectedFeatures_failure_policy:
  assumes "version_m A = version_m R"
    and "checkSelectedFeatures_missingFeatures R A \<noteq> []"
  shows "checkSelectedFeatures b R A =
     Inr (if IGL_PLATFORM_APPLE b
          then \<lparr>diagnostics =
                  [LogInfo (''Missing Vulkan features: '' @
                     checkSelectedFeatures_missingFeatures R A @ ''\<newline>'')],
                returned = \<lparr>code = Ok, message = []\<rparr>\<rparr>
          else \<lparr>diagnostics =
                  [DebugAbort (''Missing Vulkan features: '' @
                     checkSelectedFeatures_missingFeatures R A @ ''\<newline>'')],
                returned = \<lparr>code = RuntimeError, message = []\<rparr>\<rparr>)"
  using assms by (simp add: checkSelectedFeatures_def IGL_DEBUG_ASSERT_def Let_def)

text \<open>The requested set of \<open>exampleRequested\<close> against a device without dual-source
  blending and multiview, in a desktop build and in an Apple build.\<close>

theorem checkSelectedFeatures_failure_policy_witness:
  "version_m exampleAvailable_lacking = version_m exampleRequested \<and>
   checkSelectedFeatures_missingFeatures exampleRequested exampleAvailable_lacking \<noteq> [] \<and>
   (\<exists>msg. checkSelectedFeatures desktopBuild exampleRequested exampleAvailable_lacking =
      Inr \<lparr>diagnostics = [DebugAbort msg],
           returned = \<lparr>code = RuntimeError, message = []\<rparr>\<rparr>) \<and>
   (\<exists>msg. checkSelectedFeatures appleBuild exampleRequested exampleAvailable_lacking =
      Inr \<lparr>diagnostics = [LogInfo msg], returned = \<lparr>code = Ok, message = []\<rparr>\<rparr>)"
proof -
  have v: "version_m exampleAvailable_lacking = version_m exampleRequested"
    by (simp add: example_defs)
  have "missingChecks exampleRequested exampleAvailable_lacking \<noteq> []"
    by (simp add: missingChecks_def checks_def example_defs)
  then have r: "checkSelectedFeatures_missingFeatures exampleRequested exampleAvailable_lacking \<noteq> []"
    by (simp only: missing_empty_iff not_False_eq_True)
  have b: "\<not> IGL_PLATFORM_APPLE desktopBuild" "IGL_PLATFORM_APPLE appleBuild"
    by (simp_all add: example_defs)
  from checkSelectedFeatures_failure_policy [OF v r, of desktopBuild] b(1)
  have d: "\<exists>msg. checkSelectedFeatures desktopBuild exampleRequested exampleAvailable_lacking =
      Inr \<lparr>diagnostics = [DebugAbort msg],
           returned = \<lparr>code = RuntimeError, message = []\<rparr>\<rparr>"
    by simp
  from checkSelectedFeatures_failure_policy [OF v r, of appleBuild] b(2)
  have a: "\<exists>msg. checkSelectedFeatures appleBuild exampleRequested exampleAvailable_lacking =
      Inr \<lparr>diagnostics = [LogInfo msg], returned = \<lparr>code = Ok, message = []\<rparr>\<rparr>"
    by simp
  from v r d a show ?thesis by blast
qed

text \<open>
  C8. A field that the requested set does not have at \<open>VK_TRUE\<close> has no line in the
  report, under any tag and whatever the available set holds.
\<close>

theorem checkSelectedFeatures_unrequested_not_reported:
  assumes "fieldValue R f \<noteq> VK_TRUE"
  shows "''   '' @ reportEntry (tag, f) \<notin>
     set (splitLines (checkSelectedFeatures_missingFeatures R A))"
proof
  assume "''   '' @ reportEntry (tag, f) \<in>
     set (splitLines (checkSelectedFeatures_missingFeatures R A))"
  then obtain c where c: "c \<in> set (missingChecks R A)"
    and eq: "reportEntry (tag, f) = reportEntry c"
    by (auto simp: missing_lines)
  from c have "c \<in> set (checks (config_m R))" and "fieldValue R (snd c) = VK_TRUE"
    by (auto simp: missingChecks_def)
  with eq assms entry_names_field [of c "config_m R" tag f] show False by simp
qed

text \<open>
  The requested set of \<open>exampleRequested\<close> does not ask for \<open>shaderInt16\<close>; a device
  without it (the constructor's object, all fields clear but two) is not reported for it.
\<close>

theorem checkSelectedFeatures_unrequested_not_reported_witness:
  "fieldValue exampleRequested F_shaderInt16 \<noteq> VK_TRUE \<and>
   fieldValue (constructed 2 VK_API_VERSION_1_1 exampleConfig) F_shaderInt16 = VK_FALSE \<and>
   ''   1.1 VkPhysicalDeviceFeatures2_.features.shaderInt16'' \<notin>
     set (splitLines (checkSelectedFeatures_missingFeatures exampleRequested
       (constructed 2 VK_API_VERSION_1_1 exampleConfig)))"
proof -
  have f: "fieldValue exampleRequested F_shaderInt16 \<noteq> VK_TRUE"
    "fieldValue (constructed 2 VK_API_VERSION_1_1 exampleConfig) F_shaderInt16 = VK_FALSE"
    by (simp_all add: example_defs)
  from checkSelectedFeatures_unrequested_not_reported [OF f(1), of "''1.1''"
      "constructed 2 VK_API_VERSION_1_1 exampleConfig"]
  have "''   1.1 VkPhysicalDeviceFeatures2_.features.shaderInt16'' \<notin>
     set (splitLines (checkSelectedFeatures_missingFeatures exampleRequested
       (constructed 2 VK_API_VERSION_1_1 exampleConfig)))"
    by (simp add: reportEntry_def)
  with f show ?thesis by blast
qed

text \<open>
  C9, as the code has it. The report is not the entries joined by newlines: every entry,
  the first too, is preceded by a newline and three spaces. For the two missing fields of
  the example the report and the newline-joined entries differ.
\<close>

theorem checkSelectedFeatures_report_text_counterexample:
  "checkSelectedFeatures_missingFeatures exampleRequested exampleAvailable_lacking =
     ''\<newline>   1.1 VkPhysicalDeviceFeatures2_.features.dualSrcBlend\<newline>   1.1 EXT VkPhysicalDeviceMultiviewFeatures_.multiview'' \<and>
   newlineJoined (map reportEntry (missingChecks exampleRequested exampleAvailable_lacking)) =
     ''1.1 VkPhysicalDeviceFeatures2_.features.dualSrcBlend\<newline>1.1 EXT VkPhysicalDeviceMultiviewFeatures_.multiview'' \<and>
   checkSelectedFeatures_missingFeatures exampleRequested exampleAvailable_lacking \<noteq>
     newlineJoined (map reportEntry (missingChecks exampleRequested exampleAvailable_lacking))"
proof -
  have m: "missingChecks exampleRequested exampleAvailable_lacking =
      [(''1.1'', F_dualSrcBlend), (''1.1 EXT'', F_multiview)]"
    by (simp add: missingChecks_def checks_def example_defs)
  show ?thesis
    by (simp add: missing_concat m reportEntry_def)
qed

text \<open>
  C9, amended. The report is the concatenation, in the order of the checks, of one entry
  per missing field: a newline, three spaces, the tag (\<open>1.1\<close>, \<open>1.1 EXT\<close> or \<open>1.2\<close>), a
  space, the requested structure as the source names it, a dot, and the field. When the
  versions are equal and the report is not empty, the one diagnostic of the call is
  \<open>Missing Vulkan features: \<close>, the report, and a newline.
\<close>

theorem checkSelectedFeatures_report_text:
  "checkSelectedFeatures_missingFeatures R A =
     concat (map (\<lambda>c. ''\<newline>   '' @ fst c @ '' '' @ structName (snd c) @ ''.'' @ fieldName (snd c))
       (missingChecks R A)) \<and>
   fst ` set (checks (config_m R)) \<subseteq> {''1.1'', ''1.1 EXT'', ''1.2''} \<and>
   (version_m A = version_m R \<and> checkSelectedFeatures_missingFeatures R A \<noteq> [] \<longrightarrow>
      (\<exists>out. checkSelectedFeatures b R A = Inr out \<and>
         (diagnostics out =
            [DebugAbort (''Missing Vulkan features: '' @
               checkSelectedFeatures_missingFeatures R A @ ''\<newline>'')] \<or>
          diagnostics out =
            [LogInfo (''Missing Vulkan features: '' @
               checkSelectedFeatures_missingFeatures R A @ ''\<newline>'')])))"
proof -
  have a: "checkSelectedFeatures_missingFeatures R A =
     concat (map (\<lambda>c. ''\<newline>   '' @ fst c @ '' '' @ structName (snd c) @ ''.'' @ fieldName (snd c))
       (missingChecks R A))"
    by (simp add: missing_concat reportEntry_def)
  have b: "fst ` set (checks (config_m R)) \<subseteq> {''1.1'', ''1.1 EXT'', ''1.2''}"
    by (auto simp: checks_def split: if_splits)
  have c: "version_m A = version_m R \<and> checkSelectedFeatures_missingFeatures R A \<noteq> [] \<longrightarrow>
      (\<exists>out. checkSelectedFeatures b R A = Inr out \<and>
         (diagnostics out =
            [DebugAbort (''Missing Vulkan features: '' @
               checkSelectedFeatures_missingFeatures R A @ ''\<newline>'')] \<or>
          diagnostics out =
            [LogInfo (''Missing Vulkan features: '' @
               checkSelectedFeatures_missingFeatures R A @ ''\<newline>'')]))"
    by (simp add: checkSelectedFeatures_def IGL_DEBUG_ASSERT_def Let_def)
  from a b c show ?thesis by blast
qed

text \<open>The report and the diagnostic of the example, in a desktop build.\<close>

theorem checkSelectedFeatures_report_text_witness:
  "version_m exampleAvailable_lacking = version_m exampleRequested \<and>
   checkSelectedFeatures_missingFeatures exampleRequested exampleAvailable_lacking =
     ''\<newline>   1.1 VkPhysicalDeviceFeatures2_.features.dualSrcBlend\<newline>   1.1 EXT VkPhysicalDeviceMultiviewFeatures_.multiview'' \<and>
   (\<exists>out. checkSelectedFeatures desktopBuild exampleRequested exampleAvailable_lacking = Inr out \<and>
      (diagnostics out =
         [DebugAbort ''Missing Vulkan features: \<newline>   1.1 VkPhysicalDeviceFeatures2_.features.dualSrcBlend\<newline>   1.1 EXT VkPhysicalDeviceMultiviewFeatures_.multiview\<newline>''] \<or>
       diagnostics out =
         [LogInfo ''Missing Vulkan features: \<newline>   1.1 VkPhysicalDeviceFeatures2_.features.dualSrcBlend\<newline>   1.1 EXT VkPhysicalDeviceMultiviewFeatures_.multiview\<newline>'']))"
proof -
  have v: "version_m exampleAvailable_lacking = version_m exampleRequested"
    by (simp add: example_defs)
  have m: "missingChecks exampleRequested exampleAvailable_lacking =
      [(''1.1'', F_dualSrcBlend), (''1.1 EXT'', F_multiview)]"
    by (simp add: missingChecks_def checks_def example_defs)
  note t = checkSelectedFeatures_report_text
    [of exampleRequested exampleAvailable_lacking desktopBuild]
  from t have r: "checkSelectedFeatures_missingFeatures exampleRequested exampleAvailable_lacking =
     ''\<newline>   1.1 VkPhysicalDeviceFeatures2_.features.dualSrcBlend\<newline>   1.1 EXT VkPhysicalDeviceMultiviewFeatures_.multiview''"
    by (simp add: m)
  from t v show ?thesis unfolding r by simp
qed

end
